theory Spec2Isabelle
  imports Complex_Main "HOL-Library.Word"
begin

section \<open>Machine types\<close>

text \<open>
  The file \<^verbatim>\<open>impeller/entity/geometry/vertices_geometry.cc\<close> works on
  \<^verbatim>\<open>std::vector<uint16_t>\<close> index lists and walks them with counters declared
  \<^verbatim>\<open>auto i = 1u\<close> and \<^verbatim>\<open>auto i = 0u\<close>, that is \<^verbatim>\<open>unsigned int\<close>.
  An index is a 16-bit word and a counter a 32-bit word, so \<open>i++\<close> wraps at \<open>2 ^ 32\<close>
  and \<^verbatim>\<open>push_back(i)\<close> keeps the low 16 bits of the counter. A vector is a list and
  \<^verbatim>\<open>size()\<close> its length, a natural number: the comparison \<^verbatim>\<open>i < v.size() - 1\<close>
  converts the counter to \<^verbatim>\<open>size_t\<close> without changing its value, and it is only
  reached behind the guard \<^verbatim>\<open>v.size() < 3u\<close>, so the subtraction never goes below
  zero. Where \<^verbatim>\<open>size_t\<close> has 64 bits a vector can hold more than \<open>2 ^ 32\<close> entries, and
  the counter cannot count them; where it has 32 bits no vector is that long, and the
  bounds \<open>2 ^ 32\<close> below hold of every vector.
\<close>

type_synonym u16 = "16 word"
type_synonym u32 = "32 word"

section \<open>Scalars, points and rectangles\<close>

text \<open>
  \<^verbatim>\<open>Scalar\<close> is \<^verbatim>\<open>float\<close> (the file clamps with the literals \<^verbatim>\<open>0.0f\<close> and
  \<^verbatim>\<open>1.0f\<close>). The file compares scalars and computes one difference of two of them, so
  a scalar is modelled by its value: a real number, one of the two infinities, or NaN. The
  comparison \<open>scalar_less\<close> is the one of IEEE 754: it orders the numbers and the
  infinities as usual and is false as soon as one side is NaN.
\<close>

datatype Scalar = NaN | NegInf | Fin real | PosInf

fun scalar_less :: "Scalar \<Rightarrow> Scalar \<Rightarrow> bool" where
  "scalar_less NaN b = False"
| "scalar_less a NaN = False"
| "scalar_less NegInf NegInf = False"
| "scalar_less NegInf b = True"
| "scalar_less a NegInf = False"
| "scalar_less PosInf b = False"
| "scalar_less a PosInf = True"
| "scalar_less (Fin a) (Fin b) = (a < b)"

text \<open>
  The one arithmetic operation of the file on scalars is the difference
  \<^verbatim>\<open>1.0f - kEhCloseEnough\<close>. A \<^verbatim>\<open>float\<close> is an IEEE 754 binary32 number, and the
  difference of two of them is the exact difference rounded to the nearest binary32
  number, ties to the one with an even significand: 24 significant bits, exponents from
  \<open>-126\<close> (where the subnormal numbers share the spacing \<open>2 ^ -149\<close>) to 127, and infinity
  from \<open>2 ^ 128\<close> on. \<open>binade n x\<close> looks for the exponent of \<open>x\<close> from \<open>n - 126\<close>
  downwards.
\<close>

definition round_half_even :: "real \<Rightarrow> int" where
  "round_half_even x =
     (let f = \<lfloor>x\<rfloor> in
      if x - of_int f < 1 / 2 then f
      else if 1 / 2 < x - of_int f then f + 1
      else if even f then f else f + 1)"

primrec binade :: "nat \<Rightarrow> real \<Rightarrow> int" where
  "binade 0 x = - 126"
| "binade (Suc n) x =
     (if 2 powi (int (Suc n) - 126) \<le> x then int (Suc n) - 126 else binade n x)"

definition f32_round :: "real \<Rightarrow> Scalar" where
  "f32_round x =
     (if x = 0 then Fin 0
      else let ulp = 2 powi (binade 253 \<bar>x\<bar> - 23);
               r = of_int (round_half_even (\<bar>x\<bar> / ulp)) * ulp
           in if 2 powi 128 \<le> r then (if x < 0 then NegInf else PosInf)
              else Fin (sgn x * r))"

fun float_minus :: "Scalar \<Rightarrow> Scalar \<Rightarrow> Scalar" where
  "float_minus NaN b = NaN"
| "float_minus a NaN = NaN"
| "float_minus PosInf PosInf = NaN"
| "float_minus NegInf NegInf = NaN"
| "float_minus PosInf b = PosInf"
| "float_minus NegInf b = NegInf"
| "float_minus a PosInf = NegInf"
| "float_minus a NegInf = PosInf"
| "float_minus (Fin a) (Fin b) = f32_round (a - b)"

text \<open>
  A \<^verbatim>\<open>Point\<close> has the two scalar members \<^verbatim>\<open>x\<close> and \<^verbatim>\<open>y\<close>, here \<open>px\<close> and
  \<open>py\<close>.
\<close>

record Point =
  px :: Scalar
  py :: Scalar

text \<open>
  \<^verbatim>\<open>std::clamp(v, lo, hi)\<close>, \<^verbatim>\<open>std::min\<close> and \<^verbatim>\<open>std::max\<close> of the C++ standard
  library, which compare with \<open><\<close> only.
\<close>

definition std_clamp :: "Scalar \<Rightarrow> Scalar \<Rightarrow> Scalar \<Rightarrow> Scalar" where
  "std_clamp v lo hi = (if scalar_less v lo then lo else if scalar_less hi v then hi else v)"

definition std_min :: "Scalar \<Rightarrow> Scalar \<Rightarrow> Scalar" where
  "std_min a b = (if scalar_less b a then b else a)"

definition std_max :: "Scalar \<Rightarrow> Scalar \<Rightarrow> Scalar" where
  "std_max a b = (if scalar_less a b then b else a)"

text \<open>
  Modelled from the spec: \<^verbatim>\<open>Rect\<close> and \<^verbatim>\<open>Rect::MakePointBounds\<close> are declared in the
  geometry headers, which are not part of the source file. The spec calls a \<^verbatim>\<open>Rect\<close> an
  axis-aligned rectangle and the result of \<^verbatim>\<open>MakePointBounds\<close> the bounding rectangle of
  the point sequence it is given: the rectangle spanned by the least and the greatest
  coordinate on each axis, and no rectangle for an empty sequence.
\<close>

record Rect =
  rect_left :: Scalar
  rect_top :: Scalar
  rect_right :: Scalar
  rect_bottom :: Scalar

definition extend_bounds :: "Rect \<Rightarrow> Point \<Rightarrow> Rect" where
  "extend_bounds r p =
     \<lparr>rect_left = std_min (rect_left r) (px p), rect_top = std_min (rect_top r) (py p),
      rect_right = std_max (rect_right r) (px p), rect_bottom = std_max (rect_bottom r) (py p)\<rparr>"

fun MakePointBounds :: "Point list \<Rightarrow> Rect option" where
  "MakePointBounds [] = None"
| "MakePointBounds (p # ps) =
     Some (foldl extend_bounds
             \<lparr>rect_left = px p, rect_top = py p, rect_right = px p, rect_bottom = py p\<rparr> ps)"

section \<open>The fan unroller\<close>

text \<open>
  \<^verbatim>\<open>fromFanIndices\<close>, explicit branch: the loop
  \<^verbatim>\<open>for (auto i = 1u; i < indices.size() - 1; i++)\<close> pushes
  \<^verbatim>\<open>center_point, indices[i], indices[i + 1]\<close>. Both reads are inside the vector:
  \<open>i\<close> is below \<open>indices.size() - 1\<close>, and \<open>i + 1\<close> is either the next position or,
  after a wrap, position 0. A loop that does not return is the value \<open>None\<close>.
\<close>

partial_function (option) unroll_explicit ::
  "u16 list \<Rightarrow> u16 \<Rightarrow> u32 \<Rightarrow> u16 list \<Rightarrow> u16 list option" where
  "unroll_explicit indices center_point i unrolled_indices =
     (if unat i < length indices - 1
      then unroll_explicit indices center_point (i + 1)
             (unrolled_indices @ [center_point, indices ! unat i, indices ! unat (i + 1)])
      else Some unrolled_indices)"

declare unroll_explicit.simps [code]

text \<open>
  Implicit branch: \<^verbatim>\<open>for (auto i = 1u; i < vertices.size() - 1; i++)\<close> pushes
  \<^verbatim>\<open>0, i, i + 1\<close>; the sum \<open>i + 1\<close> is computed in 32 bits and both values are
  narrowed to \<^verbatim>\<open>uint16_t\<close> by \<^verbatim>\<open>push_back\<close>.
\<close>

partial_function (option) unroll_implicit ::
  "Point list \<Rightarrow> u32 \<Rightarrow> u16 list \<Rightarrow> u16 list option" where
  "unroll_implicit vertices i unrolled_indices =
     (if unat i < length vertices - 1
      then unroll_implicit vertices (i + 1)
             (unrolled_indices @ [0, ucast i, ucast (i + 1)])
      else Some unrolled_indices)"

declare unroll_implicit.simps [code]

definition fromFanIndices :: "Point list \<Rightarrow> u16 list \<Rightarrow> u16 list option" where
  "fromFanIndices vertices indices =
     (if length indices > 0 then
        (if length indices < 3 then Some []
         else unroll_explicit indices (indices ! 0) 1 [])
      else
        (if length vertices < 3 then Some []
         else unroll_implicit vertices 1 []))"

text \<open>
  The implicit unrolling as the specification words it, for the comparison with the
  code: the triples \<open>(0, i, i+1)\<close> for \<open>i\<close> from 1 to \<open>vertices.length - 2\<close>, as
  numbers.
\<close>

definition implicit_triple :: "nat \<Rightarrow> nat list" where
  "implicit_triple i = [0, i, i + 1]"

definition spec_implicit_fan :: "nat \<Rightarrow> nat list" where
  "spec_implicit_fan n =
     (if n < 3 then [] else concat (map implicit_triple [1 ..< n - 1]))"

text \<open>The same triples with every value reduced modulo \<open>2 ^ 16\<close>.\<close>

definition narrowed_triple :: "nat \<Rightarrow> u16 list" where
  "narrowed_triple i = [0, of_nat i, of_nat (i + 1)]"

definition narrowed_implicit_fan :: "nat \<Rightarrow> u16 list" where
  "narrowed_implicit_fan n =
     (if n < 3 then [] else concat (map narrowed_triple [1 ..< n - 1]))"

section \<open>The geometry object\<close>

text \<open>
  The members \<^verbatim>\<open>vertices_\<close>, \<^verbatim>\<open>colors_\<close>, \<^verbatim>\<open>texture_coordinates_\<close>,
  \<^verbatim>\<open>indices_\<close>, \<^verbatim>\<open>bounds_\<close> and \<^verbatim>\<open>vertex_mode_\<close> of the class, with a prime for
  the trailing underscore. The type of a colour is a parameter: the file only copies
  colours.
\<close>

datatype VertexMode = VertexMode_kTriangles | VertexMode_kTriangleStrip | VertexMode_kTriangleFan

text \<open>
  \<^verbatim>\<open>PrimitiveType\<close>, \<^verbatim>\<open>IndexType\<close> and \<^verbatim>\<open>GeometryVertexType\<close> are enumerations
  declared outside the source file. Their enumerators named in the file are listed;
  \<open>PrimitiveType_other\<close> stands for the primitive types the file never names.
\<close>

datatype PrimitiveType = PrimitiveType_kTriangle | PrimitiveType_kTriangleStrip | PrimitiveType_other

datatype IndexType = IndexType_kNone | IndexType_k16bit

datatype GeometryVertexType =
  GeometryVertexType_kPosition | GeometryVertexType_kColor | GeometryVertexType_kUV

record 'c VerticesGeometry =
  vertices' :: "Point list"
  colors' :: "'c list"
  texture_coordinates' :: "Point list"
  indices' :: "u16 list"
  bounds' :: Rect
  vertex_mode' :: VertexMode

text \<open>
  \<^verbatim>\<open>NormalizeIndices\<close> assigns \<^verbatim>\<open>indices_ = fromFanIndices(vertices_, indices_)\<close>
  in fan mode and touches nothing otherwise; it returns when the unroller does.
\<close>

definition NormalizeIndices :: "'c VerticesGeometry \<Rightarrow> 'c VerticesGeometry option" where
  "NormalizeIndices g =
     (if vertex_mode' g = VertexMode_kTriangleFan then
        (case fromFanIndices (vertices' g) (indices' g) of
           None \<Rightarrow> None
         | Some unrolled \<Rightarrow> Some (g\<lparr>indices' := unrolled\<rparr>))
      else Some g)"

text \<open>The constructor: the member initialisers, then \<^verbatim>\<open>NormalizeIndices()\<close>.\<close>

definition VerticesGeometry_ctor ::
  "Point list \<Rightarrow> u16 list \<Rightarrow> Point list \<Rightarrow> 'c list \<Rightarrow> Rect \<Rightarrow> VertexMode \<Rightarrow>
   'c VerticesGeometry option" where
  "VerticesGeometry_ctor vertices indices texture_coordinates colors bounds vertex_mode =
     NormalizeIndices
       \<lparr>vertices' = vertices, colors' = colors, texture_coordinates' = texture_coordinates,
        indices' = indices, bounds' = bounds, vertex_mode' = vertex_mode\<rparr>"

definition GetPrimitiveType :: "'c VerticesGeometry \<Rightarrow> PrimitiveType" where
  "GetPrimitiveType g =
     (case vertex_mode' g of
        VertexMode_kTriangleFan \<Rightarrow> PrimitiveType_kTriangle
      | VertexMode_kTriangleStrip \<Rightarrow> PrimitiveType_kTriangleStrip
      | VertexMode_kTriangles \<Rightarrow> PrimitiveType_kTriangle)"

definition HasVertexColors :: "'c VerticesGeometry \<Rightarrow> bool" where
  "HasVertexColors g = (length (colors' g) > 0)"

definition HasTextureCoordinates :: "'c VerticesGeometry \<Rightarrow> bool" where
  "HasTextureCoordinates g = (length (texture_coordinates' g) > 0)"

definition GetTextureCoordinateCoverge :: "'c VerticesGeometry \<Rightarrow> Rect option" where
  "GetTextureCoordinateCoverge g =
     (if \<not> HasTextureCoordinates g then None
      else let vertex_count = length (vertices' g) in
        if vertex_count = 0 then None
        else MakePointBounds (texture_coordinates' g))"

definition GetVertexType :: "'c VerticesGeometry \<Rightarrow> GeometryVertexType" where
  "GetVertexType g =
     (if HasVertexColors g then GeometryVertexType_kColor
      else if HasTextureCoordinates g then GeometryVertexType_kUV
      else GeometryVertexType_kPosition)"

section \<open>The buffer builders\<close>

text \<open>
  A \<^verbatim>\<open>BufferView\<close> returned by the transient buffer's \<^verbatim>\<open>Emplace\<close> is modelled by
  the data emplaced: a list of per-vertex records or of indices. The empty view
  \<^verbatim>\<open>BufferView index_buffer = {}\<close> is \<open>None\<close>. The inner \<^verbatim>\<open>vertex_buffer\<close> member
  of the result is the record \<open>VertexBuffer\<close>, whose own \<^verbatim>\<open>vertex_buffer\<close> member is
  here \<open>vertex_buffer_view\<close>; the \<^verbatim>\<open>type\<close> member of the result is
  \<open>primitive_type\<close>. The transform \<^verbatim>\<open>entity.GetShaderTransform(pass)\<close> comes from
  the caller and is a parameter, as is the type of matrices. The local variables
  \<^verbatim>\<open>index_count\<close>, \<^verbatim>\<open>vertex_count\<close>, \<^verbatim>\<open>vertex_buffer\<close> and \<^verbatim>\<open>index_buffer\<close>
  of the builders are \<open>idx_count\<close>, \<open>vtx_count\<close>, \<open>vtx_buffer\<close> and \<open>idx_buffer\<close>.
\<close>

record 'v VertexBuffer =
  vertex_buffer_view :: "'v list"
  index_buffer :: "u16 list option"
  vertex_count :: nat
  index_type :: IndexType

record ('v, 'm) GeometryResult =
  primitive_type :: PrimitiveType
  vertex_buffer :: "'v VertexBuffer"
  transform :: 'm

text \<open>
  The per-vertex records of the two pipelines: \<^verbatim>\<open>{.position, .color}\<close> and
  \<^verbatim>\<open>{.vertices, .texture_coords, .color}\<close>, the latter with the prefix \<open>blend\<close>.
\<close>

record 'c GeometryColor_PerVertexData =
  position :: Point
  color :: 'c

record 'c PorterDuffBlend_PerVertexData =
  blend_vertices :: Point
  blend_texture_coords :: Point
  blend_color :: 'c

text \<open>
  Reading a \<^verbatim>\<open>std::vector\<close> with \<^verbatim>\<open>operator[]\<close> past its end is undefined
  behaviour; the model stops there with \<open>OutOfBounds\<close>.
\<close>

datatype error = OutOfBounds


text \<open>
  The fill callback of \<^verbatim>\<open>GetPositionColorBuffer\<close>:
  \<^verbatim>\<open>for (auto i = 0u; i < vertices_.size(); i++)\<close> copies
  \<^verbatim>\<open>{vertices_[i], colors_[i]}\<close>.
\<close>

partial_function (option) fill_position_color ::
  "'c VerticesGeometry \<Rightarrow> u32 \<Rightarrow> 'c GeometryColor_PerVertexData list \<Rightarrow>
   (error + 'c GeometryColor_PerVertexData list) option" where
  "fill_position_color g i vtx_contents =
     (if unat i < length (vertices' g) then
        (if unat i < length (colors' g) then
           fill_position_color g (i + 1)
             (vtx_contents @ [\<lparr>position = vertices' g ! unat i, color = colors' g ! unat i\<rparr>])
         else Some (Inl OutOfBounds))
      else Some (Inr vtx_contents))"

declare fill_position_color.simps [code]

definition GetPositionColorBuffer ::
  "'m \<Rightarrow> 'c VerticesGeometry \<Rightarrow>
   (error + ('c GeometryColor_PerVertexData, 'm) GeometryResult) option" where
  "GetPositionColorBuffer shader_transform g =
     (let idx_count = length (indices' g);
          vtx_count = length (vertices' g)
      in case fill_position_color g 0 [] of
           None \<Rightarrow> None
         | Some (Inl e) \<Rightarrow> Some (Inl e)
         | Some (Inr vtx_buffer) \<Rightarrow>
             (let idx_buffer = (if idx_count > 0 then Some (indices' g) else None)
              in Some (Inr
                   \<lparr>primitive_type = GetPrimitiveType g,
                    vertex_buffer =
                      \<lparr>vertex_buffer_view = vtx_buffer,
                       index_buffer = idx_buffer,
                       vertex_count = (if idx_count > 0 then idx_count else vtx_count),
                       index_type =
                         (if idx_count > 0 then IndexType_k16bit else IndexType_kNone)\<rparr>,
                    transform = shader_transform\<rparr>)))"

text \<open>
  \<^verbatim>\<open>Rect::GetNormalizingTransform\<close>, the product of two matrices and the product of a
  matrix and a point are declared outside the source file and are parameters, gathered
  in a record. So is the constant \<^verbatim>\<open>kEhCloseEnough\<close>, a scalar; the upper bound of
  the clamp is the float difference \<^verbatim>\<open>1.0f - kEhCloseEnough\<close>.
\<close>

record 'm Matrix_ops =
  GetNormalizingTransform :: "Rect \<Rightarrow> 'm"
  matrix_times :: "'m \<Rightarrow> 'm \<Rightarrow> 'm"
  matrix_times_point :: "'m \<Rightarrow> Point \<Rightarrow> Point"

definition clamped_uv :: "Scalar \<Rightarrow> Point \<Rightarrow> Point" where
  "clamped_uv kEhCloseEnough uv =
     \<lparr>px = std_clamp (px uv) (Fin 0) (float_minus (Fin 1) kEhCloseEnough),
      py = std_clamp (py uv) (Fin 0) (float_minus (Fin 1) kEhCloseEnough)\<rparr>"

text \<open>
  The fill callback of \<^verbatim>\<open>GetPositionUVColorBuffer\<close>: each round reads
  \<^verbatim>\<open>vertices_[i]\<close>, then \<^verbatim>\<open>texture_coordinates_[i]\<close> when texture coordinates are
  present, then \<^verbatim>\<open>colors_[i]\<close>.
\<close>

partial_function (option) fill_position_uv_color ::
  "'m Matrix_ops \<Rightarrow> Scalar \<Rightarrow> 'm \<Rightarrow> bool \<Rightarrow> 'c VerticesGeometry \<Rightarrow> u32 \<Rightarrow>
   'c PorterDuffBlend_PerVertexData list \<Rightarrow>
   (error + 'c PorterDuffBlend_PerVertexData list) option" where
  "fill_position_uv_color ops kEhCloseEnough uv_transform has_texture_coordinates g i vtx_contents =
     (if unat i < length (vertices' g) then
        (if has_texture_coordinates \<and> \<not> unat i < length (texture_coordinates' g)
         then Some (Inl OutOfBounds)
         else if \<not> unat i < length (colors' g) then Some (Inl OutOfBounds)
         else
           fill_position_uv_color ops kEhCloseEnough uv_transform has_texture_coordinates g (i + 1)
             (vtx_contents @
              [\<lparr>blend_vertices = vertices' g ! unat i,
                blend_texture_coords =
                  clamped_uv kEhCloseEnough
                    (matrix_times_point ops uv_transform
                       (if has_texture_coordinates then texture_coordinates' g ! unat i
                        else vertices' g ! unat i)),
                blend_color = colors' g ! unat i\<rparr>]))
      else Some (Inr vtx_contents))"

declare fill_position_uv_color.simps [code]

definition GetPositionUVColorBuffer ::
  "'m Matrix_ops \<Rightarrow> Scalar \<Rightarrow> Rect \<Rightarrow> 'm \<Rightarrow> 'm \<Rightarrow> 'c VerticesGeometry \<Rightarrow>
   (error + ('c PorterDuffBlend_PerVertexData, 'm) GeometryResult) option" where
  "GetPositionUVColorBuffer ops kEhCloseEnough texture_coverage effect_transform shader_transform g =
     (let vtx_count = length (vertices' g);
          uv_transform =
            matrix_times ops (GetNormalizingTransform ops texture_coverage) effect_transform;
          has_texture_coordinates = HasTextureCoordinates g
      in case fill_position_uv_color ops kEhCloseEnough uv_transform has_texture_coordinates g 0 [] of
           None \<Rightarrow> None
         | Some (Inl e) \<Rightarrow> Some (Inl e)
         | Some (Inr vtx_buffer) \<Rightarrow>
             (let idx_count = length (indices' g);
                  idx_buffer = (if idx_count > 0 then Some (indices' g) else None)
              in Some (Inr
                   \<lparr>primitive_type = GetPrimitiveType g,
                    vertex_buffer =
                      \<lparr>vertex_buffer_view = vtx_buffer,
                       index_buffer = idx_buffer,
                       vertex_count = (if idx_count > 0 then idx_count else vtx_count),
                       index_type =
                         (if idx_count > 0 then IndexType_k16bit else IndexType_kNone)\<rparr>,
                    transform = shader_transform\<rparr>)))"

section \<open>The bounding rectangle, as the specification words it\<close>

text \<open>
  A rectangle bounds a sequence of points when every point lies between its edges and
  every edge goes through one of the points.
\<close>

definition scalar_le :: "Scalar \<Rightarrow> Scalar \<Rightarrow> bool" where
  "scalar_le a b = (scalar_less a b \<or> a = b)"

definition bounding_rectangle :: "Rect \<Rightarrow> Point list \<Rightarrow> bool" where
  "bounding_rectangle r ps =
     ((\<forall>p \<in> set ps. scalar_le (rect_left r) (px p) \<and> scalar_le (px p) (rect_right r) \<and>
                     scalar_le (rect_top r) (py p) \<and> scalar_le (py p) (rect_bottom r)) \<and>
      rect_left r \<in> px ` set ps \<and> rect_right r \<in> px ` set ps \<and>
      rect_top r \<in> py ` set ps \<and> rect_bottom r \<in> py ` set ps)"

section \<open>The packed vertex, as the specification words it\<close>

text \<open>
  The record of vertex \<open>i\<close> in the position, texture coordinate and colour layout: the
  position, the clamped image under \<open>uv_transform\<close> of the texture coordinate when
  texture coordinates are present and of the position otherwise, and the colour.
\<close>

definition blend_vertex ::
  "'m Matrix_ops \<Rightarrow> Scalar \<Rightarrow> 'm \<Rightarrow> 'c VerticesGeometry \<Rightarrow> nat \<Rightarrow> 'c PorterDuffBlend_PerVertexData" where
  "blend_vertex ops kEhCloseEnough uv_transform g i =
     \<lparr>blend_vertices = vertices' g ! i,
      blend_texture_coords =
        clamped_uv kEhCloseEnough
          (matrix_times_point ops uv_transform
             (if texture_coordinates' g \<noteq> [] then texture_coordinates' g ! i else vertices' g ! i)),
      blend_color = colors' g ! i\<rparr>"

text \<open>
  The point the texture coordinate of vertex \<open>i\<close> is computed from, its image under
  \<open>uv_transform\<close>, and the range the clamp aims at: from 0 to the upper bound, below 1.
\<close>

definition uv_source :: "'c VerticesGeometry \<Rightarrow> nat \<Rightarrow> Point" where
  "uv_source g i =
     (if texture_coordinates' g \<noteq> [] then texture_coordinates' g ! i else vertices' g ! i)"

definition uv_of ::
  "'m Matrix_ops \<Rightarrow> Rect \<Rightarrow> 'm \<Rightarrow> 'c VerticesGeometry \<Rightarrow> nat \<Rightarrow> Point" where
  "uv_of ops texture_coverage effect_transform g i =
     matrix_times_point ops
       (matrix_times ops (GetNormalizingTransform ops texture_coverage) effect_transform)
       (uv_source g i)"

definition in_unit_range :: "Scalar \<Rightarrow> Scalar \<Rightarrow> bool" where
  "in_unit_range upper c =
     (scalar_le (Fin 0) c \<and> scalar_le c upper \<and> scalar_less c (Fin 1))"

section \<open>The index protocol and the length preconditions, as the specification words them\<close>

text \<open>
  With a non-empty index list the result counts the indices, tags them 16-bit and carries
  them in an index buffer; with an empty one it counts the vertices, is tagged
  \<open>kNone\<close> and carries no index buffer. The length preconditions: as many colours as
  vertices, and as many texture coordinates when there are any.
\<close>

definition index_protocol :: "'c VerticesGeometry \<Rightarrow> 'v VertexBuffer \<Rightarrow> bool" where
  "index_protocol g vb =
     (if indices' g \<noteq> [] then
        vertex_count vb = length (indices' g) \<and> index_type vb = IndexType_k16bit \<and>
        index_buffer vb = Some (indices' g)
      else
        vertex_count vb = length (vertices' g) \<and> index_type vb = IndexType_kNone \<and>
        index_buffer vb = None)"

definition fills_in_bounds :: "'c VerticesGeometry \<Rightarrow> bool" where
  "fills_in_bounds g =
     (length (colors' g) = length (vertices' g) \<and>
      (texture_coordinates' g \<noteq> [] \<longrightarrow>
         length (texture_coordinates' g) = length (vertices' g)))"

section \<open>Sample inputs\<close>

text \<open>
  Concrete inputs for the examples: matrices of a one-element type, whose product with a
  point leaves the point where it is; the binary32 number nearest to one thousandth,
  \<open>8589935 / 2 ^ 33\<close>, for \<^verbatim>\<open>kEhCloseEnough\<close>; the unit square; a triangle with three
  colours and three indices; a vertex whose texture coordinate is NaN; a geometry with
  fewer colours than vertices; a vertex with a texture coordinate and no colour; a
  coloured vertex at \<open>(2, 0)\<close>; and \<open>2 ^ 32\<close> coloured vertices.
\<close>

definition identity_ops :: "unit Matrix_ops" where
  "identity_ops =
     \<lparr>GetNormalizingTransform = (\<lambda>r. ()), matrix_times = (\<lambda>a b. ()),
      matrix_times_point = (\<lambda>m p. p)\<rparr>"

definition kEhCloseEnough_f32 :: Scalar where
  "kEhCloseEnough_f32 = Fin (8589935 / 8589934592)"

definition unit_square :: Rect where
  "unit_square = \<lparr>rect_left = Fin 0, rect_top = Fin 0, rect_right = Fin 1, rect_bottom = Fin 1\<rparr>"

definition sample_triangle :: "unit VerticesGeometry" where
  "sample_triangle =
     \<lparr>vertices' = [\<lparr>px = Fin 0, py = Fin 0\<rparr>, \<lparr>px = Fin 2, py = Fin 0\<rparr>, \<lparr>px = Fin 0, py = Fin (1/2)\<rparr>],
      colors' = [(), (), ()],
      texture_coordinates' = [],
      indices' = [0, 1, 2],
      bounds' = unit_square,
      vertex_mode' = VertexMode_kTriangles\<rparr>"

definition nan_point_geometry :: "unit VerticesGeometry" where
  "nan_point_geometry =
     \<lparr>vertices' = [\<lparr>px = Fin 0, py = Fin 0\<rparr>],
      colors' = [()],
      texture_coordinates' = [\<lparr>px = NaN, py = NaN\<rparr>],
      indices' = [],
      bounds' = unit_square,
      vertex_mode' = VertexMode_kTriangles\<rparr>"

definition missing_colors_geometry :: "unit VerticesGeometry" where
  "missing_colors_geometry =
     \<lparr>vertices' = [\<lparr>px = Fin 0, py = Fin 0\<rparr>, \<lparr>px = Fin 1, py = Fin 0\<rparr>],
      colors' = [()],
      texture_coordinates' = [\<lparr>px = Fin 0, py = Fin 0\<rparr>, \<lparr>px = Fin 1, py = Fin 0\<rparr>],
      indices' = [],
      bounds' = unit_square,
      vertex_mode' = VertexMode_kTriangles\<rparr>"


definition far_point_geometry :: "unit VerticesGeometry" where
  "far_point_geometry =
     \<lparr>vertices' = [\<lparr>px = Fin 2, py = Fin 0\<rparr>],
      colors' = [()],
      texture_coordinates' = [],
      indices' = [],
      bounds' = unit_square,
      vertex_mode' = VertexMode_kTriangles\<rparr>"


section \<open>Properties of the unrolling loops\<close>

lemma unat_succ_u32:
  fixes i :: u32
  assumes "unat i < n" and "n < 2 ^ 32"
  shows "unat (i + 1) = Suc (unat i)"
proof -
  have "unat i + unat (1 :: u32) < 2 ^ LENGTH(32)"
    using assms by simp
  then have "unat (i + 1) = unat i + unat (1 :: u32)"
    by (simp only: unat_add_lem [THEN iffD1])
  then show ?thesis by simp
qed

lemma unroll_explicit_returns:
  assumes "length indices \<le> 2 ^ 32" and "unat i \<le> length indices - 1"
  shows "unroll_explicit indices c i acc =
           Some (acc @ concat (map (\<lambda>k. [c, indices ! k, indices ! (k + 1)])
                                   [unat i ..< length indices - 1]))"
  using assms(2)
proof (induction "length indices - 1 - unat i" arbitrary: i acc)
  case 0
  then have "\<not> unat i < length indices - 1" by simp
  then show ?case
    by (subst unroll_explicit.simps) simp
next
  case (Suc d)
  then have lt: "unat i < length indices - 1" by simp
  with assms(1) have step: "unat (i + 1) = Suc (unat i)"
    by (intro unat_succ_u32 [of i "length indices - 1"]) simp_all
  have "d = length indices - 1 - unat (i + 1)"
    using Suc.hyps(2) step by simp
  moreover have "unat (i + 1) \<le> length indices - 1"
    using lt step by simp
  ultimately have
    "unroll_explicit indices c (i + 1) (acc @ [c, indices ! unat i, indices ! unat (i + 1)]) =
       Some ((acc @ [c, indices ! unat i, indices ! unat (i + 1)]) @
             concat (map (\<lambda>k. [c, indices ! k, indices ! (k + 1)])
                         [unat (i + 1) ..< length indices - 1]))"
    by (rule Suc.hyps(1))
  moreover have "[unat i ..< length indices - 1] = unat i # [unat (i + 1) ..< length indices - 1]"
    using lt step by (simp add: upt_conv_Cons)
  ultimately show ?case
    using lt step by (subst unroll_explicit.simps) simp
qed

lemma unroll_explicit_bounded:
  assumes "unroll_explicit indices c i acc = Some r"
  shows "length indices \<le> 2 ^ 32"
  using assms
proof (induction rule: unroll_explicit.raw_induct [rotated 1, consumes 1])
  case (1 loop indices c i acc r)
  show ?case
  proof (cases "unat i < length indices - 1")
    case True
    with 1 show ?thesis by simp
  next
    case False
    moreover have "unat i < 2 ^ 32"
      using unsigned_less [of i, where ?'a = nat] by simp
    ultimately show ?thesis by simp
  qed
qed

lemma unroll_implicit_returns:
  assumes "length vertices \<le> 2 ^ 32" and "unat i \<le> length vertices - 1"
  shows "unroll_implicit vertices i acc =
           Some (acc @ concat (map narrowed_triple [unat i ..< length vertices - 1]))"
  using assms(2)
proof (induction "length vertices - 1 - unat i" arbitrary: i acc)
  case 0
  then have "\<not> unat i < length vertices - 1" by simp
  then show ?case
    by (subst unroll_implicit.simps) simp
next
  case (Suc d)
  then have lt: "unat i < length vertices - 1" by simp
  with assms(1) have step: "unat (i + 1) = Suc (unat i)"
    by (intro unat_succ_u32 [of i "length vertices - 1"]) simp_all
  have "(ucast (i + 1) :: u16) = of_nat (unat (i + 1))"
    by simp
  also have "\<dots> = of_nat (unat i + 1)"
    by (simp only: step Suc_eq_plus1)
  finally have narrow: "[0, ucast i, ucast (i + 1)] = narrowed_triple (unat i)"
    by (simp add: narrowed_triple_def)
  have "d = length vertices - 1 - unat (i + 1)"
    using Suc.hyps(2) step by simp
  moreover have "unat (i + 1) \<le> length vertices - 1"
    using lt step by simp
  ultimately have
    "unroll_implicit vertices (i + 1) (acc @ [0, ucast i, ucast (i + 1)]) =
       Some ((acc @ [0, ucast i, ucast (i + 1)]) @
             concat (map narrowed_triple [unat (i + 1) ..< length vertices - 1]))"
    by (rule Suc.hyps(1))
  moreover have "[unat i ..< length vertices - 1] = unat i # [unat (i + 1) ..< length vertices - 1]"
    using lt step by (simp add: upt_conv_Cons)
  ultimately show ?case
    using lt narrow by (subst unroll_implicit.simps) simp
qed

lemma unroll_implicit_bounded:
  assumes "unroll_implicit vertices i acc = Some r"
  shows "length vertices \<le> 2 ^ 32"
  using assms
proof (induction rule: unroll_implicit.raw_induct [rotated 1, consumes 1])
  case (1 loop vertices i acc r)
  show ?case
  proof (cases "unat i < length vertices - 1")
    case True
    with 1 show ?thesis by simp
  next
    case False
    moreover have "unat i < 2 ^ 32"
      using unsigned_less [of i, where ?'a = nat] by simp
    ultimately show ?thesis by simp
  qed
qed

lemma fromFanIndices_of_indices:
  assumes "indices \<noteq> []" and "length indices \<le> 2 ^ 32"
  shows "fromFanIndices vertices indices =
           Some (if length indices < 3 then []
                 else concat (map (\<lambda>i. [indices ! 0, indices ! i, indices ! (i + 1)])
                                  [1 ..< length indices - 1]))"
proof (cases "length indices < 3")
  case True
  with assms(1) show ?thesis by (simp add: fromFanIndices_def)
next
  case False
  then have "unat (1 :: u32) \<le> length indices - 1" by simp
  from unroll_explicit_returns [OF assms(2) this, of "indices ! 0" "[]"] False assms(1)
  show ?thesis by (simp add: fromFanIndices_def)
qed

lemma fromFanIndices_of_vertices:
  assumes "length vertices \<le> 2 ^ 32"
  shows "fromFanIndices vertices [] = Some (narrowed_implicit_fan (length vertices))"
proof (cases "length vertices < 3")
  case True
  then show ?thesis by (simp add: fromFanIndices_def narrowed_implicit_fan_def)
next
  case False
  then have "unat (1 :: u32) \<le> length vertices - 1" by simp
  from unroll_implicit_returns [OF assms this, of "[]"] False
  show ?thesis by (simp add: fromFanIndices_def narrowed_implicit_fan_def)
qed

lemma fromFanIndices_explicit_diverges:
  assumes "2 ^ 32 < length indices"
  shows "fromFanIndices vertices indices = None"
proof (cases "fromFanIndices vertices indices")
  case None
  then show ?thesis .
next
  case (Some r)
  with assms have "unroll_explicit indices (indices ! 0) 1 [] = Some r"
    by (simp add: fromFanIndices_def split: if_splits)
  then have "length indices \<le> 2 ^ 32" by (rule unroll_explicit_bounded)
  with assms show ?thesis by simp
qed

lemma fromFanIndices_implicit_diverges:
  assumes "2 ^ 32 < length vertices"
  shows "fromFanIndices vertices [] = None"
proof (cases "fromFanIndices vertices []")
  case None
  then show ?thesis .
next
  case (Some r)
  with assms have "unroll_implicit vertices 1 [] = Some r"
    by (simp add: fromFanIndices_def split: if_splits)
  then have "length vertices \<le> 2 ^ 32" by (rule unroll_implicit_bounded)
  with assms show ?thesis by simp
qed

lemma length_concat_triples:
  assumes "\<And>k. length (f k) = 3"
  shows "length (concat (map f ks)) = 3 * length ks"
  by (induction ks) (simp_all add: assms)

lemma length_narrowed_implicit_fan:
  "3 \<le> n \<Longrightarrow> length (narrowed_implicit_fan n) = 3 * (n - 2)"
  by (simp add: narrowed_implicit_fan_def length_concat_triples narrowed_triple_def)

lemma unat_narrowed_triple:
  "map unat (narrowed_triple i) = [0, i mod 65536, (i + 1) mod 65536]"
proof -
  have "unat (of_nat k :: u16) = k mod 65536" for k
    by (simp only: unat_of_nat) simp
  then show ?thesis
    by (simp only: narrowed_triple_def list.map unsigned_0)
qed

lemma unat_narrowed_implicit_fan:
  "map unat (narrowed_implicit_fan n) =
     (if n < 3 then []
      else concat (map (\<lambda>i. [0, i mod 65536, (i + 1) mod 65536]) [1 ..< n - 1]))"
  by (simp add: narrowed_implicit_fan_def map_concat comp_def unat_narrowed_triple)

lemma unat_narrowed_small:
  assumes "n \<le> 65536"
  shows "map unat (narrowed_implicit_fan n) = spec_implicit_fan n"
proof -
  have "[0, i mod 65536, (i + 1) mod 65536] = implicit_triple i" if "i \<in> set [1 ..< n - 1]" for i
  proof -
    from that assms have "i < 65536" and "i + 1 < 65536" by auto
    then show ?thesis by (simp only: implicit_triple_def mod_less)
  qed
  then have "map (\<lambda>i. [0, i mod 65536, (i + 1) mod 65536]) [1 ..< n - 1] =
             map implicit_triple [1 ..< n - 1]"
    by (intro map_cong) simp_all
  then show ?thesis
    by (simp only: unat_narrowed_implicit_fan spec_implicit_fan_def)
qed

lemma spec_implicit_fan_large:
  assumes "65537 \<le> n"
  shows "65536 \<in> set (spec_implicit_fan n)"
proof -
  have "65535 \<in> set [1 ..< n - 1]" using assms by simp
  moreover have "65536 \<in> set (implicit_triple 65535)" by (simp add: implicit_triple_def)
  ultimately show ?thesis
    using assms by (auto simp: spec_implicit_fan_def)
qed

lemma unat_u16_small:
  fixes ws :: "u16 list"
  shows "65536 \<notin> set (map unat ws)"
proof
  assume "65536 \<in> set (map unat ws)"
  then obtain w :: u16 where "unat w = 65536" by auto
  moreover have "unat w < 2 ^ 16"
    using unsigned_less [of w, where ?'a = nat] by simp
  ultimately show False by simp
qed

lemma unat_narrowed_large:
  assumes "65537 \<le> n"
  shows "map unat (narrowed_implicit_fan n) \<noteq> spec_implicit_fan n"
proof
  assume "map unat (narrowed_implicit_fan n) = spec_implicit_fan n"
  then have "set (map unat (narrowed_implicit_fan n)) = set (spec_implicit_fan n)"
    by (rule arg_cong)
  with spec_implicit_fan_large [OF assms] unat_u16_small [of "narrowed_implicit_fan n"]
  show False by blast
qed

lemma last_narrowed_implicit_fan:
  assumes "3 \<le> n"
  shows "last (narrowed_implicit_fan n) = of_nat (n - 1)"
proof -
  obtain m where n: "n = Suc (Suc m)" and m: "1 \<le> m"
    using assms by (metis Suc_le_D Suc_le_mono numeral_3_eq_3 One_nat_def)
  have "[1 ..< n - 1] = [1 ..< m] @ [m]"
    using n m by (simp add: upt_Suc_append)
  then have "narrowed_implicit_fan n =
               concat (map narrowed_triple [1 ..< m]) @ narrowed_triple m"
    using assms by (simp add: narrowed_implicit_fan_def)
  then show ?thesis
    using n by (simp add: narrowed_triple_def)
qed

lemma last_spec_implicit_fan:
  assumes "3 \<le> n"
  shows "last (spec_implicit_fan n) = n - 1"
proof -
  obtain m where n: "n = Suc (Suc m)" and m: "1 \<le> m"
    using assms by (metis Suc_le_D Suc_le_mono numeral_3_eq_3 One_nat_def)
  have "[1 ..< n - 1] = [1 ..< m] @ [m]"
    using n m by (simp add: upt_Suc_append)
  then have "spec_implicit_fan n = concat (map implicit_triple [1 ..< m]) @ implicit_triple m"
    using assms by (simp add: spec_implicit_fan_def)
  then show ?thesis
    using n by (simp add: implicit_triple_def)
qed

section \<open>Claims about the fan unroller\<close>

text \<open>
  Claim C1, as amended. For a non-empty explicit index list of at most \<open>2 ^ 32\<close>
  entries the unroller returns: the empty sequence when there are fewer than three
  indices, and otherwise the concatenation of the triples
  \<open>(indices[0], indices[i], indices[i+1])\<close> for \<open>i\<close> from 1 to \<open>indices.length - 2\<close>,
  which has \<open>3 * (indices.length - 2)\<close> entries. On a longer list it does not return.
\<close>

theorem fromFanIndices_explicit:
  assumes "indices \<noteq> []"
  shows "fromFanIndices vertices indices =
           (if length indices \<le> 2 ^ 32 then
              Some (if length indices < 3 then []
                    else concat (map (\<lambda>i. [indices ! 0, indices ! i, indices ! (i + 1)])
                                     [1 ..< length indices - 1]))
            else None)
         \<and> (3 \<le> length indices \<and> length indices \<le> 2 ^ 32 \<longrightarrow>
              map_option length (fromFanIndices vertices indices) =
                Some (3 * (length indices - 2)))"
proof (cases "length indices \<le> 2 ^ 32")
  case True
  note eq = fromFanIndices_of_indices [OF assms True, of vertices]
  have "length (concat (map (\<lambda>i. [indices ! 0, indices ! i, indices ! (i + 1)])
                            [1 ..< length indices - 1])) = 3 * (length indices - 2)"
    by (simp add: length_concat_triples)
  with eq True show ?thesis by simp
next
  case False
  then have "fromFanIndices vertices indices = None"
    by (intro fromFanIndices_explicit_diverges) simp
  with False show ?thesis by simp
qed

text \<open>The input \<open>[5,1,2,3]\<close> yields \<open>[5,1,2, 5,2,3]\<close>, six indices.\<close>

theorem fromFanIndices_explicit_witness:
  "[5, 1, 2, 3] \<noteq> ([] :: u16 list) \<and> length [5, 1, 2, 3 :: u16] \<le> 2 ^ 32 \<and>
   fromFanIndices [] [5, 1, 2, 3] = Some [5, 1, 2, 5, 2, 3] \<and>
   map_option length (fromFanIndices [] [5, 1, 2, 3]) = Some 6"
  using fromFanIndices_explicit [of "[5, 1, 2, 3]" "[]"] by (simp add: upt_rec)

text \<open>
  Claim C1 as stated, for every index list, fails on a list of \<open>2 ^ 32 + 1\<close> indices:
  the 32-bit counter never reaches \<open>indices.size() - 1 = 2 ^ 32\<close>, it wraps to 0 and the
  loop does not return.
\<close>

theorem fromFanIndices_explicit_counterexample:
  "fromFanIndices [] (replicate 4294967297 0) = None"
  by (rule fromFanIndices_explicit_diverges) simp

text \<open>
  Claim C2, as amended. With an empty index list and at most \<open>2 ^ 32\<close> vertices the
  unroller returns: the empty sequence when there are fewer than three vertices, and
  otherwise the concatenation of the triples \<open>(0, i, i+1)\<close> for \<open>i\<close> from 1 to
  \<open>vertices.length - 2\<close>, each value stored as a 16-bit index, \<open>3 * (vertices.length - 2)\<close>
  entries in all; up to 65536 vertices the stored values are the numbers \<open>0, i, i+1\<close>
  themselves. With more than \<open>2 ^ 32\<close> vertices it does not return.
\<close>

theorem fromFanIndices_implicit:
  assumes "indices = []"
  shows "fromFanIndices vertices indices =
           (if length vertices \<le> 2 ^ 32 then
              Some (if length vertices < 3 then []
                    else concat (map (\<lambda>i. [0, of_nat i, of_nat (i + 1)])
                                     [1 ..< length vertices - 1]))
            else None)
         \<and> (3 \<le> length vertices \<and> length vertices \<le> 2 ^ 32 \<longrightarrow>
              map_option length (fromFanIndices vertices indices) =
                Some (3 * (length vertices - 2)))
         \<and> (length vertices \<le> 65536 \<longrightarrow>
              map_option (map unat) (fromFanIndices vertices indices) =
                Some (spec_implicit_fan (length vertices)))"
proof (cases "length vertices \<le> 2 ^ 32")
  case True
  have eq: "fromFanIndices vertices indices = Some (narrowed_implicit_fan (length vertices))"
    using fromFanIndices_of_vertices [OF True] assms by simp
  show ?thesis
  proof (intro conjI impI)
    show "fromFanIndices vertices indices =
            (if length vertices \<le> 2 ^ 32 then
               Some (if length vertices < 3 then []
                     else concat (map (\<lambda>i. [0, of_nat i, of_nat (i + 1)])
                                      [1 ..< length vertices - 1]))
             else None)"
      unfolding eq narrowed_implicit_fan_def narrowed_triple_def using True by simp
    show "map_option length (fromFanIndices vertices indices) = Some (3 * (length vertices - 2))"
      if "3 \<le> length vertices \<and> length vertices \<le> 2 ^ 32"
      using that by (simp only: eq option.map length_narrowed_implicit_fan)
    show "map_option (map unat) (fromFanIndices vertices indices) =
            Some (spec_implicit_fan (length vertices))"
      if "length vertices \<le> 65536"
      using that by (simp only: eq option.map unat_narrowed_small)
  qed
next
  case False
  then have "fromFanIndices vertices indices = None"
    using assms by (simp add: fromFanIndices_implicit_diverges)
  with False show ?thesis by simp
qed

text \<open>Five vertices yield \<open>[0,1,2, 0,2,3, 0,3,4]\<close>.\<close>

theorem fromFanIndices_implicit_witness:
  "fromFanIndices (replicate 5 \<lparr>px = Fin 0, py = Fin 0\<rparr>) [] = Some [0, 1, 2, 0, 2, 3, 0, 3, 4] \<and>
   map_option length (fromFanIndices (replicate 5 \<lparr>px = Fin 0, py = Fin 0\<rparr>) []) = Some 9"
  using fromFanIndices_implicit [of "[]" "replicate 5 \<lparr>px = Fin 0, py = Fin 0\<rparr>"]
  by (simp add: upt_rec)

text \<open>
  Claim C2 as stated, for every vertex count, fails at 65537 vertices, where the result
  is not the sequence of the numbers \<open>0, i, i+1\<close> (the last triple is \<open>(0, 65535, 0)\<close>),
  and at \<open>2 ^ 32 + 1\<close> vertices, where the loop does not return.
\<close>

theorem fromFanIndices_implicit_counterexample:
  "map_option (map unat) (fromFanIndices (replicate 65537 \<lparr>px = Fin 0, py = Fin 0\<rparr>) []) \<noteq>
     Some (spec_implicit_fan 65537) \<and>
   fromFanIndices (replicate 4294967297 \<lparr>px = Fin 0, py = Fin 0\<rparr>) [] = None"
proof
  have "length (replicate 65537 \<lparr>px = Fin 0, py = Fin 0\<rparr>) \<le> 2 ^ 32" by simp
  from fromFanIndices_of_vertices [OF this] unat_narrowed_large [of 65537]
  show "map_option (map unat) (fromFanIndices (replicate 65537 \<lparr>px = Fin 0, py = Fin 0\<rparr>) []) \<noteq>
          Some (spec_implicit_fan 65537)"
    by simp
  show "fromFanIndices (replicate 4294967297 \<lparr>px = Fin 0, py = Fin 0\<rparr>) [] = None"
    by (rule fromFanIndices_implicit_diverges) simp
qed

text \<open>
  Claim C10, as amended. In the implicit case, with at most \<open>2 ^ 32\<close> vertices, the
  emitted values are \<open>0\<close>, \<open>i\<close> and \<open>i + 1\<close> reduced modulo \<open>2 ^ 16\<close>. For a vertex count
  from 3 to 65536 they equal \<open>0, i, i+1\<close> exactly. From 65537 vertices on an emitted
  index wraps around: the result differs from the unreduced sequence, and its last
  entry is \<open>vertices.length - 1\<close> modulo \<open>2 ^ 16\<close>.
\<close>

theorem implicit_fan_narrowing:
  assumes "length vertices \<le> 2 ^ 32"
  shows "map_option (map unat) (fromFanIndices vertices []) =
           Some (if length vertices < 3 then []
                 else concat (map (\<lambda>i. [0, i mod 65536, (i + 1) mod 65536])
                                  [1 ..< length vertices - 1]))
         \<and> (3 \<le> length vertices \<and> length vertices \<le> 65536 \<longrightarrow>
              map_option (map unat) (fromFanIndices vertices []) =
                Some (spec_implicit_fan (length vertices)))
         \<and> (65537 \<le> length vertices \<longrightarrow>
              map_option (map unat) (fromFanIndices vertices []) \<noteq>
                Some (spec_implicit_fan (length vertices))
              \<and> map_option last (fromFanIndices vertices []) =
                  Some (of_nat (length vertices - 1)))"
proof (intro conjI impI)
  note eq = fromFanIndices_of_vertices [OF assms]
  show "map_option (map unat) (fromFanIndices vertices []) =
          Some (if length vertices < 3 then []
                else concat (map (\<lambda>i. [0, i mod 65536, (i + 1) mod 65536])
                                 [1 ..< length vertices - 1]))"
    by (simp only: eq option.map unat_narrowed_implicit_fan)
  show "map_option (map unat) (fromFanIndices vertices []) =
          Some (spec_implicit_fan (length vertices))"
    if "3 \<le> length vertices \<and> length vertices \<le> 65536"
    using that by (simp only: eq option.map unat_narrowed_small)
  show "map_option (map unat) (fromFanIndices vertices []) \<noteq>
          Some (spec_implicit_fan (length vertices))"
    if "65537 \<le> length vertices"
    using unat_narrowed_large [OF that] by (simp add: eq)
  show "map_option last (fromFanIndices vertices []) = Some (of_nat (length vertices - 1))"
    if "65537 \<le> length vertices"
  proof -
    from that have "3 \<le> length vertices" by simp
    then show ?thesis
      by (simp only: eq option.map last_narrowed_implicit_fan)
  qed
qed

text \<open>Four vertices: the emitted values are the counter values.\<close>

theorem implicit_fan_narrowing_witness:
  "length (replicate 4 \<lparr>px = Fin 0, py = Fin 0\<rparr>) \<le> 2 ^ 32 \<and>
   map_option (map unat) (fromFanIndices (replicate 4 \<lparr>px = Fin 0, py = Fin 0\<rparr>) []) =
     Some [0, 1, 2, 0, 2, 3]"
proof -
  have len: "length (replicate 4 \<lparr>px = Fin 0, py = Fin 0\<rparr>) \<le> 2 ^ 32" by simp
  have "spec_implicit_fan 4 = [0, 1, 2, 0, 2, 3]"
    by (simp add: spec_implicit_fan_def implicit_triple_def upt_rec)
  with implicit_fan_narrowing [OF len] len show ?thesis
    by simp
qed

text \<open>
  Claim C10 as stated gives 65537 as the largest vertex count without wrap-around. At
  65537 vertices the last round has \<open>i = 65535\<close> and pushes \<open>i + 1 = 65536\<close>, which is
  stored as 0.
\<close>

theorem implicit_fan_narrowing_counterexample:
  "map_option last (fromFanIndices (replicate 65537 \<lparr>px = Fin 0, py = Fin 0\<rparr>) []) = Some 0 \<and>
   last (spec_implicit_fan 65537) = 65536"
proof
  have "length (replicate 65537 \<lparr>px = Fin 0, py = Fin 0\<rparr>) \<le> 2 ^ 32" by simp
  from fromFanIndices_of_vertices [OF this] last_narrowed_implicit_fan [of 65537]
  show "map_option last (fromFanIndices (replicate 65537 \<lparr>px = Fin 0, py = Fin 0\<rparr>) []) = Some 0"
    by simp
  show "last (spec_implicit_fan 65537) = 65536"
    using last_spec_implicit_fan [of 65537] by simp
qed

section \<open>Claims about the geometry object\<close>

text \<open>
  Claim C3. The constructor returns exactly when the normalization does, and the object
  it returns holds the vertices, colours, texture coordinates, bounds and topology mode
  it was given. Only the index list can differ: in fan mode it is the output of the fan
  unroller on the given vertices and indices, in the other two modes the given index
  list.
\<close>

theorem constructor_stores_inputs:
  "VerticesGeometry_ctor vertices indices texture_coordinates colors bounds vertex_mode =
     map_option
       (\<lambda>stored_indices.
          \<lparr>vertices' = vertices, colors' = colors, texture_coordinates' = texture_coordinates,
           indices' = stored_indices, bounds' = bounds, vertex_mode' = vertex_mode\<rparr>)
       (if vertex_mode = VertexMode_kTriangleFan then fromFanIndices vertices indices
        else Some indices)"
proof (cases "vertex_mode = VertexMode_kTriangleFan")
  case True
  show ?thesis
  proof (cases "fromFanIndices vertices indices")
    case None
    with True show ?thesis
      by (simp add: VerticesGeometry_ctor_def NormalizeIndices_def)
  next
    case (Some unrolled)
    with True show ?thesis
      by (simp add: VerticesGeometry_ctor_def NormalizeIndices_def)
  qed
next
  case False
  then show ?thesis
    by (simp add: VerticesGeometry_ctor_def NormalizeIndices_def)
qed

text \<open>
  Claim C6. For every constructed geometry the stored mode is the mode given to the
  constructor, and \<open>GetPrimitiveType\<close> is \<open>kTriangle\<close> when that mode is \<open>kTriangles\<close> or
  \<open>kTriangleFan\<close> and \<open>kTriangleStrip\<close> when it is \<open>kTriangleStrip\<close>; it is never
  another primitive type.
\<close>

theorem GetPrimitiveType_of_mode:
  assumes "VerticesGeometry_ctor vertices indices texture_coordinates colors bounds vertex_mode = Some g"
  shows "vertex_mode' g = vertex_mode
         \<and> (vertex_mode' g = VertexMode_kTriangles \<or> vertex_mode' g = VertexMode_kTriangleFan \<longrightarrow>
              GetPrimitiveType g = PrimitiveType_kTriangle)
         \<and> (vertex_mode' g = VertexMode_kTriangleStrip \<longrightarrow>
              GetPrimitiveType g = PrimitiveType_kTriangleStrip)
         \<and> (GetPrimitiveType g = PrimitiveType_kTriangle \<or>
            GetPrimitiveType g = PrimitiveType_kTriangleStrip)"
proof -
  from assms have "vertex_mode' g = vertex_mode"
    by (auto simp: VerticesGeometry_ctor_def NormalizeIndices_def split: if_splits option.splits)
  then show ?thesis
    by (cases vertex_mode) (simp_all add: GetPrimitiveType_def)
qed

text \<open>A fan of three vertices: built with the indices \<open>[0,1,2]\<close>, reported as triangles.\<close>

theorem GetPrimitiveType_of_mode_witness:
  "VerticesGeometry_ctor
     [\<lparr>px = Fin 0, py = Fin 0\<rparr>, \<lparr>px = Fin 1, py = Fin 0\<rparr>, \<lparr>px = Fin 0, py = Fin 1\<rparr>]
     [] [] ([] :: unit list)
     \<lparr>rect_left = Fin 0, rect_top = Fin 0, rect_right = Fin 1, rect_bottom = Fin 1\<rparr>
     VertexMode_kTriangleFan =
   Some \<lparr>vertices' = [\<lparr>px = Fin 0, py = Fin 0\<rparr>, \<lparr>px = Fin 1, py = Fin 0\<rparr>, \<lparr>px = Fin 0, py = Fin 1\<rparr>],
         colors' = [], texture_coordinates' = [], indices' = [0, 1, 2],
         bounds' = \<lparr>rect_left = Fin 0, rect_top = Fin 0, rect_right = Fin 1, rect_bottom = Fin 1\<rparr>,
         vertex_mode' = VertexMode_kTriangleFan\<rparr> \<and>
   GetPrimitiveType
     \<lparr>vertices' = [\<lparr>px = Fin 0, py = Fin 0\<rparr>, \<lparr>px = Fin 1, py = Fin 0\<rparr>, \<lparr>px = Fin 0, py = Fin 1\<rparr>],
      colors' = ([] :: unit list), texture_coordinates' = [], indices' = [0, 1, 2],
      bounds' = \<lparr>rect_left = Fin 0, rect_top = Fin 0, rect_right = Fin 1, rect_bottom = Fin 1\<rparr>,
      vertex_mode' = VertexMode_kTriangleFan\<rparr> = PrimitiveType_kTriangle"
proof -
  have built: "VerticesGeometry_ctor
     [\<lparr>px = Fin 0, py = Fin 0\<rparr>, \<lparr>px = Fin 1, py = Fin 0\<rparr>, \<lparr>px = Fin 0, py = Fin 1\<rparr>]
     [] [] ([] :: unit list)
     \<lparr>rect_left = Fin 0, rect_top = Fin 0, rect_right = Fin 1, rect_bottom = Fin 1\<rparr>
     VertexMode_kTriangleFan =
   Some \<lparr>vertices' = [\<lparr>px = Fin 0, py = Fin 0\<rparr>, \<lparr>px = Fin 1, py = Fin 0\<rparr>, \<lparr>px = Fin 0, py = Fin 1\<rparr>],
         colors' = [], texture_coordinates' = [], indices' = [0, 1, 2],
         bounds' = \<lparr>rect_left = Fin 0, rect_top = Fin 0, rect_right = Fin 1, rect_bottom = Fin 1\<rparr>,
         vertex_mode' = VertexMode_kTriangleFan\<rparr>"
    by (simp add: VerticesGeometry_ctor_def NormalizeIndices_def fromFanIndices_def
                  unroll_implicit.simps)
  from GetPrimitiveType_of_mode [OF built] built show ?thesis by simp
qed

text \<open>
  Claim C7. \<open>GetVertexType\<close> is \<open>kColor\<close> whenever there are colours, with or without
  texture coordinates; otherwise \<open>kUV\<close> when there are texture coordinates; otherwise
  \<open>kPosition\<close>.
\<close>

theorem GetVertexType_precedence:
  "(colors' g \<noteq> [] \<longrightarrow> GetVertexType g = GeometryVertexType_kColor)
   \<and> (colors' g = [] \<and> texture_coordinates' g \<noteq> [] \<longrightarrow> GetVertexType g = GeometryVertexType_kUV)
   \<and> (colors' g = [] \<and> texture_coordinates' g = [] \<longrightarrow>
        GetVertexType g = GeometryVertexType_kPosition)"
proof (intro conjI impI)
  assume "colors' g \<noteq> []"
  then have "HasVertexColors g" by (simp add: HasVertexColors_def)
  then show "GetVertexType g = GeometryVertexType_kColor" by (simp add: GetVertexType_def)
next
  assume "colors' g = [] \<and> texture_coordinates' g \<noteq> []"
  then have "\<not> HasVertexColors g" and "HasTextureCoordinates g"
    by (simp_all add: HasVertexColors_def HasTextureCoordinates_def)
  then show "GetVertexType g = GeometryVertexType_kUV" by (simp add: GetVertexType_def)
next
  assume "colors' g = [] \<and> texture_coordinates' g = []"
  then have "\<not> HasVertexColors g" and "\<not> HasTextureCoordinates g"
    by (simp_all add: HasVertexColors_def HasTextureCoordinates_def)
  then show "GetVertexType g = GeometryVertexType_kPosition" by (simp add: GetVertexType_def)
qed

text \<open>With both colours and texture coordinates the type is \<open>kColor\<close>.\<close>

theorem GetVertexType_precedence_witness:
  "GetVertexType
     \<lparr>vertices' = [\<lparr>px = Fin 0, py = Fin 0\<rparr>], colors' = [()],
      texture_coordinates' = [\<lparr>px = Fin 0, py = Fin 0\<rparr>], indices' = [],
      bounds' = \<lparr>rect_left = Fin 0, rect_top = Fin 0, rect_right = Fin 0, rect_bottom = Fin 0\<rparr>,
      vertex_mode' = VertexMode_kTriangles\<rparr> = GeometryVertexType_kColor"
  using GetVertexType_precedence
    [of "\<lparr>vertices' = [\<lparr>px = Fin 0, py = Fin 0\<rparr>], colors' = [()],
      texture_coordinates' = [\<lparr>px = Fin 0, py = Fin 0\<rparr>], indices' = [],
      bounds' = \<lparr>rect_left = Fin 0, rect_top = Fin 0, rect_right = Fin 0, rect_bottom = Fin 0\<rparr>,
      vertex_mode' = VertexMode_kTriangles\<rparr>"]
  by simp

section \<open>Claims about the texture-coordinate coverage\<close>

text \<open>
  The rectangle of \<open>MakePointBounds\<close> bounds the points it is given, provided no
  coordinate is NaN (a NaN is unordered and lies between no two edges).
\<close>

lemma scalar_le_trans:
  "scalar_le a b \<Longrightarrow> scalar_le b c \<Longrightarrow> scalar_le a c"
  by (cases a; cases b; cases c) (auto simp: scalar_le_def)

lemma std_min_le:
  assumes "a \<noteq> NaN" and "b \<noteq> NaN"
  shows "scalar_le (std_min a b) a" and "scalar_le (std_min a b) b"
    and "std_min a b = a \<or> std_min a b = b"
  using assms by (cases a; cases b; auto simp: scalar_le_def std_min_def)+

lemma std_max_ge:
  assumes "a \<noteq> NaN" and "b \<noteq> NaN"
  shows "scalar_le a (std_max a b)" and "scalar_le b (std_max a b)"
    and "std_max a b = a \<or> std_max a b = b"
  using assms by (cases a; cases b; auto simp: scalar_le_def std_max_def)+

lemma extend_bounds_bounding:
  assumes "bounding_rectangle r ps"
    and "\<forall>p \<in> set ps. px p \<noteq> NaN \<and> py p \<noteq> NaN"
    and "px q \<noteq> NaN" and "py q \<noteq> NaN"
  shows "bounding_rectangle (extend_bounds r q) (ps @ [q])"
proof -
  from assms(1,2) have edges: "rect_left r \<noteq> NaN" "rect_right r \<noteq> NaN"
    "rect_top r \<noteq> NaN" "rect_bottom r \<noteq> NaN"
    by (auto simp: bounding_rectangle_def)
  note l = std_min_le [OF edges(1) assms(3)]
  note t = std_min_le [OF edges(3) assms(4)]
  note r = std_max_ge [OF edges(2) assms(3)]
  note b = std_max_ge [OF edges(4) assms(4)]
  have inside: "scalar_le (std_min (rect_left r) (px q)) (px p) \<and>
        scalar_le (px p) (std_max (rect_right r) (px q)) \<and>
        scalar_le (std_min (rect_top r) (py q)) (py p) \<and>
        scalar_le (py p) (std_max (rect_bottom r) (py q))" if "p \<in> set ps" for p
    using that assms(1) l(1) t(1) r(1) b(1)
    by (auto simp: bounding_rectangle_def intro: scalar_le_trans)
  have attained: "std_min (rect_left r) (px q) \<in> px ` set (ps @ [q])"
     "std_max (rect_right r) (px q) \<in> px ` set (ps @ [q])"
     "std_min (rect_top r) (py q) \<in> py ` set (ps @ [q])"
     "std_max (rect_bottom r) (py q) \<in> py ` set (ps @ [q])"
    using assms(1) l(3) t(3) r(3) b(3) by (auto simp: bounding_rectangle_def)
  show ?thesis
    unfolding bounding_rectangle_def extend_bounds_def
    using inside attained l(2) t(2) r(2) b(2) by simp
qed

lemma foldl_extend_bounds_bounding:
  assumes "bounding_rectangle r ps"
    and "\<forall>p \<in> set (ps @ qs). px p \<noteq> NaN \<and> py p \<noteq> NaN"
  shows "bounding_rectangle (foldl extend_bounds r qs) (ps @ qs)"
  using assms
proof (induction qs arbitrary: r ps)
  case Nil
  then show ?case by simp
next
  case (Cons q qs)
  have "bounding_rectangle (extend_bounds r q) (ps @ [q])"
    using Cons.prems by (intro extend_bounds_bounding) simp_all
  moreover have "\<forall>p \<in> set ((ps @ [q]) @ qs). px p \<noteq> NaN \<and> py p \<noteq> NaN"
    using Cons.prems(2) by simp
  ultimately have "bounding_rectangle (foldl extend_bounds (extend_bounds r q) qs) ((ps @ [q]) @ qs)"
    by (rule Cons.IH)
  then show ?case by simp
qed

lemma MakePointBounds_bounding:
  assumes "ps \<noteq> []" and "\<forall>p \<in> set ps. px p \<noteq> NaN \<and> py p \<noteq> NaN"
  shows "\<exists>r. MakePointBounds ps = Some r \<and> bounding_rectangle r ps"
proof -
  from assms(1) obtain p qs where ps: "ps = p # qs" by (cases ps) auto
  have "bounding_rectangle \<lparr>rect_left = px p, rect_top = py p, rect_right = px p, rect_bottom = py p\<rparr> [p]"
    by (simp add: bounding_rectangle_def scalar_le_def)
  moreover have "\<forall>p \<in> set ([p] @ qs). px p \<noteq> NaN \<and> py p \<noteq> NaN"
    using assms(2) ps by simp
  ultimately have "bounding_rectangle
      (foldl extend_bounds \<lparr>rect_left = px p, rect_top = py p, rect_right = px p, rect_bottom = py p\<rparr> qs)
      ([p] @ qs)"
    by (rule foldl_extend_bounds_bounding)
  then show ?thesis by (simp add: ps)
qed

lemma MakePointBounds_None: "MakePointBounds ps = None \<longleftrightarrow> ps = []"
  by (cases ps) simp_all

text \<open>
  Claim C8. \<open>GetTextureCoordinateCoverge\<close> returns the absent value exactly when the
  texture-coordinate sequence is empty or there is no vertex. Otherwise it returns what
  \<open>MakePointBounds\<close> makes of the whole texture-coordinate sequence, a rectangle that
  bounds the sequence when no coordinate is NaN.
\<close>

theorem GetTextureCoordinateCoverge_absent:
  "(GetTextureCoordinateCoverge g = None \<longleftrightarrow>
      texture_coordinates' g = [] \<or> vertices' g = [])
   \<and> (texture_coordinates' g \<noteq> [] \<and> vertices' g \<noteq> [] \<longrightarrow>
        GetTextureCoordinateCoverge g = MakePointBounds (texture_coordinates' g))
   \<and> (texture_coordinates' g \<noteq> [] \<and> vertices' g \<noteq> [] \<and>
       (\<forall>p \<in> set (texture_coordinates' g). px p \<noteq> NaN \<and> py p \<noteq> NaN) \<longrightarrow>
        (\<exists>r. GetTextureCoordinateCoverge g = Some r \<and>
              bounding_rectangle r (texture_coordinates' g)))"
proof (intro conjI impI)
  show "GetTextureCoordinateCoverge g = None \<longleftrightarrow>
          texture_coordinates' g = [] \<or> vertices' g = []"
    by (simp add: GetTextureCoordinateCoverge_def HasTextureCoordinates_def MakePointBounds_None)
  show "GetTextureCoordinateCoverge g = MakePointBounds (texture_coordinates' g)"
    if "texture_coordinates' g \<noteq> [] \<and> vertices' g \<noteq> []"
    using that by (simp add: GetTextureCoordinateCoverge_def HasTextureCoordinates_def)
  show "\<exists>r. GetTextureCoordinateCoverge g = Some r \<and> bounding_rectangle r (texture_coordinates' g)"
    if "texture_coordinates' g \<noteq> [] \<and> vertices' g \<noteq> [] \<and>
        (\<forall>p \<in> set (texture_coordinates' g). px p \<noteq> NaN \<and> py p \<noteq> NaN)"
    using that MakePointBounds_bounding [of "texture_coordinates' g"]
    by (simp add: GetTextureCoordinateCoverge_def HasTextureCoordinates_def)
qed

text \<open>Three texture coordinates and their bounding rectangle.\<close>

theorem GetTextureCoordinateCoverge_absent_witness:
  "GetTextureCoordinateCoverge
     \<lparr>vertices' = [\<lparr>px = Fin 0, py = Fin 0\<rparr>, \<lparr>px = Fin 4, py = Fin 0\<rparr>, \<lparr>px = Fin 0, py = Fin 4\<rparr>],
      colors' = ([] :: unit list),
      texture_coordinates' = [\<lparr>px = Fin 1, py = Fin 5\<rparr>, \<lparr>px = Fin 3, py = Fin 2\<rparr>, \<lparr>px = Fin 2, py = Fin 7\<rparr>],
      indices' = [],
      bounds' = \<lparr>rect_left = Fin 0, rect_top = Fin 0, rect_right = Fin 4, rect_bottom = Fin 4\<rparr>,
      vertex_mode' = VertexMode_kTriangles\<rparr> =
   Some \<lparr>rect_left = Fin 1, rect_top = Fin 2, rect_right = Fin 3, rect_bottom = Fin 7\<rparr>"
  using GetTextureCoordinateCoverge_absent
    [of "\<lparr>vertices' = [\<lparr>px = Fin 0, py = Fin 0\<rparr>, \<lparr>px = Fin 4, py = Fin 0\<rparr>, \<lparr>px = Fin 0, py = Fin 4\<rparr>],
      colors' = ([] :: unit list),
      texture_coordinates' = [\<lparr>px = Fin 1, py = Fin 5\<rparr>, \<lparr>px = Fin 3, py = Fin 2\<rparr>, \<lparr>px = Fin 2, py = Fin 7\<rparr>],
      indices' = [],
      bounds' = \<lparr>rect_left = Fin 0, rect_top = Fin 0, rect_right = Fin 4, rect_bottom = Fin 4\<rparr>,
      vertex_mode' = VertexMode_kTriangles\<rparr>"]
  by (simp add: extend_bounds_def std_min_def std_max_def)

section \<open>Properties of the fill loops\<close>

text \<open>
  Each fill loop returns the packed vertices when there are fewer than \<open>2 ^ 32\<close>
  vertices and every read is in bounds, returns only then, and stops with
  \<open>OutOfBounds\<close> when the colours run out before the vertices.
\<close>

lemma unat_u32_less: "unat (i :: u32) < 2 ^ 32"
  using unsigned_less [of i, where ?'a = nat] by simp


lemma fill_position_color_Inr:
  assumes "fill_position_color g i acc = Some (Inr out)"
  shows "length (vertices' g) < 2 ^ 32 \<and>
         (\<forall>k. unat i \<le> k \<and> k < length (vertices' g) \<longrightarrow> k < length (colors' g))"
proof -
  have "\<forall>out. y = Inr out \<longrightarrow> length (vertices' g) < 2 ^ 32 \<and>
         (\<forall>k. unat i \<le> k \<and> k < length (vertices' g) \<longrightarrow> k < length (colors' g))"
    if "fill_position_color g i acc = Some y" for y
    using that
  proof (induction rule: fill_position_color.raw_induct [rotated 1, consumes 1])
    case (1 loop g i acc y)
    show ?case
    proof (cases "unat i < length (vertices' g)")
      case False
      with unat_u32_less [of i] have "length (vertices' g) < 2 ^ 32" by simp
      with False show ?thesis by simp
    next
      case True
      show ?thesis
      proof (cases "unat i < length (colors' g)")
        case False
        with True 1(2) show ?thesis by auto
      next
        case inb: True
        show ?thesis
        proof (intro allI impI)
          fix out assume "y = Inr out"
          with True inb 1(2)
          have "loop g (i + 1) (acc @ [\<lparr>position = vertices' g ! unat i, color = colors' g ! unat i\<rparr>])
                  = Some (Inr out)"
            by simp
          from 1(1) [OF this] have len: "length (vertices' g) < 2 ^ 32"
            and rest: "\<forall>k. unat (i + 1) \<le> k \<and> k < length (vertices' g) \<longrightarrow> k < length (colors' g)"
            by simp_all
          from True len have step: "unat (i + 1) = Suc (unat i)" by (rule unat_succ_u32)
          have "k < length (colors' g)" if "unat i \<le> k \<and> k < length (vertices' g)" for k
          proof (cases "k = unat i")
            case True
            with inb show ?thesis by simp
          next
            case False
            with that step have "unat (i + 1) \<le> k \<and> k < length (vertices' g)" by simp
            with rest show ?thesis by blast
          qed
          with len show "length (vertices' g) < 2 ^ 32 \<and>
            (\<forall>k. unat i \<le> k \<and> k < length (vertices' g) \<longrightarrow> k < length (colors' g))"
            by blast
        qed
      qed
    qed
  qed
  with assms show ?thesis by blast
qed


lemma fill_position_color_out_of_bounds:
  assumes "length (colors' g) < length (vertices' g)"
    and "length (colors' g) < 2 ^ 32"
    and "unat i \<le> length (colors' g)"
  shows "fill_position_color g i acc = Some (Inl OutOfBounds)"
  using assms(3)
proof (induction "length (colors' g) - unat i" arbitrary: i acc)
  case 0
  then have "\<not> unat i < length (colors' g)" and "unat i < length (vertices' g)"
    using assms(1) by simp_all
  then show ?case
    by (subst fill_position_color.simps) simp
next
  case (Suc d)
  then have lt: "unat i < length (colors' g)" by simp
  from lt assms(2) have step: "unat (i + 1) = Suc (unat i)"
    by (rule unat_succ_u32)
  have "d = length (colors' g) - unat (i + 1)"
    using Suc.hyps(2) step by simp
  moreover have "unat (i + 1) \<le> length (colors' g)"
    using lt step by simp
  ultimately have
    "fill_position_color g (i + 1)
       (acc @ [\<lparr>position = vertices' g ! unat i, color = colors' g ! unat i\<rparr>]) =
     Some (Inl OutOfBounds)"
    by (rule Suc.hyps(1))
  then show ?case
    using lt assms(1) by (subst fill_position_color.simps) simp
qed

lemma fill_position_uv_color_returns:
  assumes "length (vertices' g) < 2 ^ 32"
    and "length (vertices' g) \<le> length (colors' g)"
    and "texture_coordinates' g \<noteq> [] \<longrightarrow> length (vertices' g) \<le> length (texture_coordinates' g)"
    and "unat i \<le> length (vertices' g)"
  shows "fill_position_uv_color ops eps uvt (texture_coordinates' g \<noteq> []) g i acc =
           Some (Inr (acc @ map (blend_vertex ops eps uvt g) [unat i ..< length (vertices' g)]))"
  using assms(4)
proof (induction "length (vertices' g) - unat i" arbitrary: i acc)
  case 0
  then have "\<not> unat i < length (vertices' g)" by simp
  then show ?case
    by (subst fill_position_uv_color.simps) simp
next
  case (Suc d)
  then have lt: "unat i < length (vertices' g)" by simp
  from lt assms(1) have step: "unat (i + 1) = Suc (unat i)"
    by (rule unat_succ_u32)
  have "d = length (vertices' g) - unat (i + 1)"
    using Suc.hyps(2) step by simp
  moreover have "unat (i + 1) \<le> length (vertices' g)"
    using lt step by simp
  ultimately have
    "fill_position_uv_color ops eps uvt (texture_coordinates' g \<noteq> []) g (i + 1)
       (acc @ [blend_vertex ops eps uvt g (unat i)]) =
     Some (Inr ((acc @ [blend_vertex ops eps uvt g (unat i)]) @
                map (blend_vertex ops eps uvt g) [unat (i + 1) ..< length (vertices' g)]))"
    by (rule Suc.hyps(1))
  moreover have "[unat i ..< length (vertices' g)] = unat i # [unat (i + 1) ..< length (vertices' g)]"
    using lt step by (simp add: upt_conv_Cons)
  moreover have "unat i < length (colors' g)"
    and "texture_coordinates' g \<noteq> [] \<longrightarrow> unat i < length (texture_coordinates' g)"
    using lt assms(2,3) by auto
  ultimately show ?case
    using lt
    by (subst fill_position_uv_color.simps) (auto simp add: blend_vertex_def)
qed

lemma fill_position_uv_color_Inr:
  assumes "fill_position_uv_color ops eps uvt has g i acc = Some (Inr out)"
  shows "length (vertices' g) < 2 ^ 32 \<and>
         (\<forall>k. unat i \<le> k \<and> k < length (vertices' g) \<longrightarrow>
              k < length (colors' g) \<and> (has \<longrightarrow> k < length (texture_coordinates' g)))"
proof -
  have "\<forall>out. y = Inr out \<longrightarrow> length (vertices' g) < 2 ^ 32 \<and>
         (\<forall>k. unat i \<le> k \<and> k < length (vertices' g) \<longrightarrow>
              k < length (colors' g) \<and> (has \<longrightarrow> k < length (texture_coordinates' g)))"
    if "fill_position_uv_color ops eps uvt has g i acc = Some y" for y
    using that
  proof (induction rule: fill_position_uv_color.raw_induct [rotated 1, consumes 1])
    case (1 loop ops eps uvt has g i acc y)
    show ?case
    proof (cases "unat i < length (vertices' g)")
      case False
      with unat_u32_less [of i] have "length (vertices' g) < 2 ^ 32" by simp
      with False show ?thesis by simp
    next
      case True
      show ?thesis
      proof (cases "unat i < length (colors' g) \<and> (has \<longrightarrow> unat i < length (texture_coordinates' g))")
        case False
        with True 1(2) show ?thesis by (auto split: if_splits)
      next
        case inb: True
        show ?thesis
        proof (intro allI impI)
          fix out assume "y = Inr out"
          with True inb 1(2)
          obtain acc' where "loop ops eps uvt has g (i + 1) acc' = Some (Inr out)"
            by (auto split: if_splits)
          from 1(1) [OF this] have len: "length (vertices' g) < 2 ^ 32"
            and rest: "\<forall>k. unat (i + 1) \<le> k \<and> k < length (vertices' g) \<longrightarrow>
                        k < length (colors' g) \<and> (has \<longrightarrow> k < length (texture_coordinates' g))"
            by simp_all
          from True len have step: "unat (i + 1) = Suc (unat i)" by (rule unat_succ_u32)
          have "k < length (colors' g) \<and> (has \<longrightarrow> k < length (texture_coordinates' g))"
            if "unat i \<le> k \<and> k < length (vertices' g)" for k
          proof (cases "k = unat i")
            case True
            with inb show ?thesis by simp
          next
            case False
            with that step have "unat (i + 1) \<le> k \<and> k < length (vertices' g)" by simp
            with rest show ?thesis by blast
          qed
          with len show "length (vertices' g) < 2 ^ 32 \<and>
            (\<forall>k. unat i \<le> k \<and> k < length (vertices' g) \<longrightarrow>
                 k < length (colors' g) \<and> (has \<longrightarrow> k < length (texture_coordinates' g)))"
            by blast
        qed
      qed
    qed
  qed
  with assms show ?thesis by blast
qed

lemma fill_position_uv_color_in_bounds:
  assumes "fill_position_uv_color ops eps uvt has g i acc = Some (Inl e)"
  shows "\<not> (length (vertices' g) \<le> length (colors' g) \<and>
            (has \<longrightarrow> length (vertices' g) \<le> length (texture_coordinates' g)))"
proof -
  have "\<forall>e. y = Inl e \<longrightarrow>
          \<not> (length (vertices' g) \<le> length (colors' g) \<and>
             (has \<longrightarrow> length (vertices' g) \<le> length (texture_coordinates' g)))"
    if "fill_position_uv_color ops eps uvt has g i acc = Some y" for y
    using that
  proof (induction rule: fill_position_uv_color.raw_induct [rotated 1, consumes 1])
    case (1 loop ops eps uvt has g i acc y)
    show ?case
    proof (intro allI impI)
      fix e assume y: "y = Inl e"
      show "\<not> (length (vertices' g) \<le> length (colors' g) \<and>
                (has \<longrightarrow> length (vertices' g) \<le> length (texture_coordinates' g)))"
      proof (cases "unat i < length (vertices' g)")
        case False
        with 1(2) y show ?thesis by simp
      next
        case True
        show ?thesis
        proof (cases "unat i < length (colors' g) \<and>
                      (has \<longrightarrow> unat i < length (texture_coordinates' g))")
          case False
          with True show ?thesis by auto
        next
          case inb: True
          with True 1(2) obtain acc' where "loop ops eps uvt has g (i + 1) acc' = Some y"
            by (auto split: if_splits)
          from 1(1) [OF this] y show ?thesis by blast
        qed
      qed
    qed
  qed
  with assms show ?thesis by blast
qed

lemma fill_position_uv_color_out_of_bounds:
  assumes "length (colors' g) < length (vertices' g)"
    and "length (colors' g) < 2 ^ 32"
    and "unat i \<le> length (colors' g)"
  shows "fill_position_uv_color ops eps uvt has g i acc = Some (Inl OutOfBounds)"
  using assms(3)
proof (induction "length (colors' g) - unat i" arbitrary: i acc)
  case 0
  then have "\<not> unat i < length (colors' g)" and "unat i < length (vertices' g)"
    using assms(1) by simp_all
  then show ?case
    by (subst fill_position_uv_color.simps) simp
next
  case (Suc d)
  then have lt: "unat i < length (colors' g)" by simp
  from lt assms(2) have step: "unat (i + 1) = Suc (unat i)"
    by (rule unat_succ_u32)
  have "d = length (colors' g) - unat (i + 1)"
    using Suc.hyps(2) step by simp
  moreover have "unat (i + 1) \<le> length (colors' g)"
    using lt step by simp
  ultimately have rec: "fill_position_uv_color ops eps uvt has g (i + 1) acc' = Some (Inl OutOfBounds)"
    for acc'
    by (rule Suc.hyps(1))
  show ?case
    using lt assms(1) by (subst fill_position_uv_color.simps) (simp add: rec)
qed

section \<open>Properties of the float difference\<close>

text \<open>
  Rounding to an integer stays on the same side of every integer. A number from a half
  up to one is rounded to a multiple of \<open>2 ^ -24\<close>. So \<open>1.0f - \<epsilon>\<close> lies from a half to
  \<open>1 - 2 ^ -24\<close>, below one, for every \<open>\<epsilon>\<close> from \<open>2 ^ -24\<close> to a half; for the binary32
  number nearest to one thousandth it is \<open>16760439 / 2 ^ 24\<close>.
\<close>

lemma round_half_even_le:
  assumes "x \<le> of_int n"
  shows "round_half_even x \<le> n"
proof -
  have fl: "\<lfloor>x\<rfloor> \<le> n" using assms by (simp add: floor_le_iff)
  show ?thesis
  proof (cases "\<lfloor>x\<rfloor> = n")
    case True
    then have "x - of_int \<lfloor>x\<rfloor> \<le> 0" using assms by simp
    then have "x - of_int \<lfloor>x\<rfloor> < 1 / 2" by simp
    then show ?thesis using fl by (simp add: round_half_even_def Let_def)
  next
    case False
    with fl have "\<lfloor>x\<rfloor> + 1 \<le> n" by simp
    with fl show ?thesis by (simp add: round_half_even_def Let_def)
  qed
qed

lemma round_half_even_ge:
  assumes "of_int n \<le> x"
  shows "n \<le> round_half_even x"
proof -
  have "n \<le> \<lfloor>x\<rfloor>" using assms by (simp add: le_floor_iff)
  then show ?thesis by (simp add: round_half_even_def Let_def)
qed

lemma binade_eq:
  assumes "2 powi e \<le> x" and "x < 2 powi (e + 1)" and "- 126 \<le> e" and "e \<le> int n - 126"
  shows "binade n x = e"
  using assms(4)
proof (induction n)
  case 0
  with assms(3) show ?case by simp
next
  case (Suc n)
  show ?case
  proof (cases "(2 :: real) powi (int (Suc n) - 126) \<le> x")
    case True
    have "\<not> e + 1 \<le> int (Suc n) - 126"
    proof
      assume "e + 1 \<le> int (Suc n) - 126"
      then have "(2 :: real) powi (e + 1) \<le> 2 powi (int (Suc n) - 126)"
        by (rule power_int_increasing) simp
      with assms(2) True show False by simp
    qed
    with Suc.prems True show ?thesis by simp
  next
    case False
    with assms(1) have "e \<noteq> int (Suc n) - 126" by auto
    with Suc.prems have "e \<le> int n - 126" by simp
    with Suc.IH False show ?thesis by simp
  qed
qed

lemma f32_round_unit_binade:
  assumes "1 / 2 \<le> x" and "x < 1"
  shows "f32_round x = Fin (of_int (round_half_even (x * 16777216)) / 16777216)"
proof -
  have "binade 253 x = - 1"
    using assms by (intro binade_eq) (simp_all add: power_int_minus)
  moreover have "of_int (round_half_even (x * 16777216)) / 16777216 < (2 :: real) powi 128"
  proof -
    have "round_half_even (x * 16777216) \<le> 16777216"
      using assms by (intro round_half_even_le) simp
    then have "(of_int (round_half_even (x * 16777216)) :: real) \<le> 16777216"
      by (metis of_int_le_iff of_int_numeral)
    then have "of_int (round_half_even (x * 16777216)) / 16777216 \<le> (1 :: real)" by simp
    also have "\<dots> < 2 powi 128" by simp
    finally show ?thesis .
  qed
  ultimately show ?thesis
    using assms by (simp add: f32_round_def Let_def power_int_minus field_simps)
qed

lemma one_minus_eps_f32:
  assumes "1 / 16777216 \<le> eps" and "eps \<le> 1 / 2"
  shows "\<exists>h. float_minus (Fin 1) (Fin eps) = Fin h \<and> 1 / 2 \<le> h \<and> h \<le> 16777215 / 16777216"
proof -
  let ?m = "round_half_even ((1 - eps) * 16777216)"
  have x: "1 / 2 \<le> 1 - eps" "1 - eps < 1" using assms by simp_all
  have "?m \<le> 16777215" using assms by (intro round_half_even_le) simp
  then have up: "(of_int ?m :: real) \<le> 16777215" by (metis of_int_le_iff of_int_numeral)
  have "8388608 \<le> ?m" using assms by (intro round_half_even_ge) simp
  then have lo: "(8388608 :: real) \<le> of_int ?m" by (metis of_int_le_iff of_int_numeral)
  from f32_round_unit_binade [OF x] up lo show ?thesis
    by (intro exI [of _ "of_int ?m / 16777216"]) simp
qed

lemma one_minus_kEhCloseEnough_f32:
  "float_minus (Fin 1) kEhCloseEnough_f32 = Fin (16760439 / 16777216)"
proof -
  have "round_half_even ((1 - 8589935 / 8589934592) * 16777216) = 16760439"
    by (simp add: round_half_even_def Let_def)
  moreover have "(1 :: real) / 2 \<le> 1 - 8589935 / 8589934592"
    and "(1 :: real) - 8589935 / 8589934592 < 1"
    by simp_all
  ultimately show ?thesis
    by (simp add: kEhCloseEnough_f32_def f32_round_unit_binade)
qed

section \<open>Claims about the buffer builders\<close>

text \<open>What a returned result tells about the geometry, and when a builder returns.\<close>

lemma GetPositionColorBuffer_Inr:
  assumes "GetPositionColorBuffer st g = Some (Inr r)"
  shows "index_protocol g (vertex_buffer r)"
    and "length (vertices' g) < 2 ^ 32"
    and "length (vertices' g) \<le> length (colors' g)"
proof -
  from assms obtain out where out: "fill_position_color g 0 [] = Some (Inr out)"
    by (auto simp: GetPositionColorBuffer_def Let_def split: option.splits sum.splits)
  with assms show "index_protocol g (vertex_buffer r)"
    by (auto simp: GetPositionColorBuffer_def Let_def index_protocol_def)
  from fill_position_color_Inr [OF out] show "length (vertices' g) < 2 ^ 32" by simp
  from fill_position_color_Inr [OF out]
  have "\<forall>k. k < length (vertices' g) \<longrightarrow> k < length (colors' g)" by simp
  then show "length (vertices' g) \<le> length (colors' g)"
    by (meson not_le order_less_irrefl)
qed


lemma GetPositionUVColorBuffer_Inr:
  assumes "GetPositionUVColorBuffer ops eps cov eff st g = Some (Inr r)"
  shows "index_protocol g (vertex_buffer r)"
    and "length (vertices' g) < 2 ^ 32"
    and "length (vertices' g) \<le> length (colors' g)"
    and "texture_coordinates' g \<noteq> [] \<longrightarrow> length (vertices' g) \<le> length (texture_coordinates' g)"
proof -
  from assms obtain out where out:
    "fill_position_uv_color ops eps (matrix_times ops (GetNormalizingTransform ops cov) eff)
       (texture_coordinates' g \<noteq> []) g 0 [] = Some (Inr out)"
    by (auto simp: GetPositionUVColorBuffer_def Let_def HasTextureCoordinates_def
             split: option.splits sum.splits)
  with assms show "index_protocol g (vertex_buffer r)"
    by (auto simp: GetPositionUVColorBuffer_def Let_def index_protocol_def
                   HasTextureCoordinates_def)
  note inr = fill_position_uv_color_Inr [OF out]
  from inr show "length (vertices' g) < 2 ^ 32" by simp
  from inr have all: "\<forall>k. k < length (vertices' g) \<longrightarrow>
      k < length (colors' g) \<and> (texture_coordinates' g \<noteq> [] \<longrightarrow> k < length (texture_coordinates' g))"
    by simp
  then show "length (vertices' g) \<le> length (colors' g)"
    by (meson not_le order_less_irrefl)
  from all show "texture_coordinates' g \<noteq> [] \<longrightarrow>
      length (vertices' g) \<le> length (texture_coordinates' g)"
    by (meson not_le order_less_irrefl)
qed

lemma GetPositionUVColorBuffer_view:
  assumes "GetPositionUVColorBuffer ops eps cov eff st g = Some (Inr r)"
  shows "vertex_buffer_view (vertex_buffer r) =
           map (blend_vertex ops eps (matrix_times ops (GetNormalizingTransform ops cov) eff) g)
               [0 ..< length (vertices' g)]"
proof -
  note pre = GetPositionUVColorBuffer_Inr(2-4) [OF assms]
  have "unat (0 :: u32) \<le> length (vertices' g)" by simp
  from fill_position_uv_color_returns [OF pre this, of ops eps _ "[]"] assms
  show ?thesis
    by (auto simp: GetPositionUVColorBuffer_def Let_def HasTextureCoordinates_def)
qed

lemma GetPositionUVColorBuffer_returns:
  assumes "length (vertices' g) < 2 ^ 32" and "length (vertices' g) \<le> length (colors' g)"
    and "texture_coordinates' g \<noteq> [] \<longrightarrow> length (vertices' g) \<le> length (texture_coordinates' g)"
  shows "\<exists>r. GetPositionUVColorBuffer ops eps cov eff st g = Some (Inr r)"
proof -
  have "unat (0 :: u32) \<le> length (vertices' g)" by simp
  from fill_position_uv_color_returns [OF assms this, of ops eps _ "[]"]
  show ?thesis
    by (simp add: GetPositionUVColorBuffer_def Let_def HasTextureCoordinates_def)
qed


lemma sample_triangle_uv_buffer:
  "GetPositionUVColorBuffer identity_ops kEhCloseEnough_f32 unit_square () () sample_triangle =
     Some (Inr \<lparr>primitive_type = PrimitiveType_kTriangle,
                vertex_buffer =
                  \<lparr>vertex_buffer_view =
                     [\<lparr>blend_vertices = \<lparr>px = Fin 0, py = Fin 0\<rparr>,
                        blend_texture_coords = \<lparr>px = Fin 0, py = Fin 0\<rparr>, blend_color = ()\<rparr>,
                      \<lparr>blend_vertices = \<lparr>px = Fin 2, py = Fin 0\<rparr>,
                        blend_texture_coords = \<lparr>px = Fin (16760439 / 16777216), py = Fin 0\<rparr>,
                        blend_color = ()\<rparr>,
                      \<lparr>blend_vertices = \<lparr>px = Fin 0, py = Fin (1/2)\<rparr>,
                        blend_texture_coords = \<lparr>px = Fin 0, py = Fin (1/2)\<rparr>, blend_color = ()\<rparr>],
                   index_buffer = Some [0, 1, 2], vertex_count = 3,
                   index_type = IndexType_k16bit\<rparr>,
                transform = ()\<rparr>)"
  by (simp add: GetPositionUVColorBuffer_def sample_triangle_def fill_position_uv_color.simps
                GetPrimitiveType_def HasTextureCoordinates_def identity_ops_def clamped_uv_def
                std_clamp_def one_minus_kEhCloseEnough_f32)




text \<open>
  Claim C9. With as many colours as vertices, and as many texture coordinates when there
  are any, no read of \<open>GetPositionUVColorBuffer\<close> is out of bounds, and the builder returns
  a result when there are fewer than \<open>2 ^ 32\<close> vertices. With fewer colours than vertices
  neither colour builder ever returns a result, whether texture coordinates are present
  or not: each reads \<open>colors_[i]\<close> for every vertex and stops out of bounds at the first
  missing colour.
\<close>

theorem uv_color_builder_bounds:
  "(fills_in_bounds g \<longrightarrow>
      GetPositionUVColorBuffer ops eps cov eff st g \<noteq> Some (Inl OutOfBounds))
   \<and> (length (vertices' g) < 2 ^ 32 \<and> fills_in_bounds g \<longrightarrow>
        (\<exists>r. GetPositionUVColorBuffer ops eps cov eff st g = Some (Inr r)))
   \<and> (length (colors' g) < length (vertices' g) \<longrightarrow>
        (\<forall>r. GetPositionUVColorBuffer ops eps cov eff st g \<noteq> Some (Inr r)) \<and>
        (\<forall>r. GetPositionColorBuffer st g \<noteq> Some (Inr r)))
   \<and> (length (colors' g) < length (vertices' g) \<and> length (colors' g) < 2 ^ 32 \<longrightarrow>
        GetPositionUVColorBuffer ops eps cov eff st g = Some (Inl OutOfBounds) \<and>
        GetPositionColorBuffer st g = Some (Inl OutOfBounds))"
proof (intro conjI allI impI)
  show "GetPositionUVColorBuffer ops eps cov eff st g \<noteq> Some (Inl OutOfBounds)"
    if "fills_in_bounds g"
  proof
    assume "GetPositionUVColorBuffer ops eps cov eff st g = Some (Inl OutOfBounds)"
    then have "fill_position_uv_color ops eps (matrix_times ops (GetNormalizingTransform ops cov) eff)
                 (texture_coordinates' g \<noteq> []) g 0 [] = Some (Inl OutOfBounds)"
      by (auto simp: GetPositionUVColorBuffer_def Let_def HasTextureCoordinates_def
               split: option.splits sum.splits)
    from fill_position_uv_color_in_bounds [OF this] that show False
      by (auto simp: fills_in_bounds_def split: if_splits)
  qed
  show "\<exists>r. GetPositionUVColorBuffer ops eps cov eff st g = Some (Inr r)"
    if "length (vertices' g) < 2 ^ 32 \<and> fills_in_bounds g"
    using that
    by (intro GetPositionUVColorBuffer_returns) (auto simp: fills_in_bounds_def split: if_splits)
  show "GetPositionUVColorBuffer ops eps cov eff st g \<noteq> Some (Inr r)"
    if "length (colors' g) < length (vertices' g)" for r
    using that GetPositionUVColorBuffer_Inr(3) [of ops eps cov eff st g r] by auto
  show "GetPositionColorBuffer st g \<noteq> Some (Inr r)"
    if "length (colors' g) < length (vertices' g)" for r
    using that GetPositionColorBuffer_Inr(3) [of st g r] by auto
  assume short: "length (colors' g) < length (vertices' g) \<and> length (colors' g) < 2 ^ 32"
  have zero: "unat (0 :: u32) \<le> length (colors' g)" by simp
  from short show "GetPositionUVColorBuffer ops eps cov eff st g = Some (Inl OutOfBounds)"
    by (simp add: GetPositionUVColorBuffer_def Let_def
                  fill_position_uv_color_out_of_bounds [OF _ _ zero])
  from short show "GetPositionColorBuffer st g = Some (Inl OutOfBounds)"
    by (simp add: GetPositionColorBuffer_def Let_def
                  fill_position_color_out_of_bounds [OF _ _ zero])
qed

text \<open>
  The sample triangle meets the preconditions; two vertices with one colour and two
  texture coordinates do not.
\<close>

theorem uv_color_builder_bounds_witness:
  "fills_in_bounds sample_triangle \<and>
   GetPositionUVColorBuffer identity_ops kEhCloseEnough_f32 unit_square () () sample_triangle \<noteq>
     Some (Inl OutOfBounds) \<and>
   length (colors' missing_colors_geometry) < length (vertices' missing_colors_geometry) \<and>
   GetPositionUVColorBuffer identity_ops kEhCloseEnough_f32 unit_square () () missing_colors_geometry =
     Some (Inl OutOfBounds)"
proof -
  have a: "fills_in_bounds sample_triangle"
    by (simp add: fills_in_bounds_def sample_triangle_def)
  have b: "length (colors' missing_colors_geometry) < length (vertices' missing_colors_geometry) \<and>
           length (colors' missing_colors_geometry) < 2 ^ 32"
    by (simp add: missing_colors_geometry_def)
  from uv_color_builder_bounds [of sample_triangle identity_ops kEhCloseEnough_f32 unit_square "()" "()"] a
  have "GetPositionUVColorBuffer identity_ops kEhCloseEnough_f32 unit_square () () sample_triangle \<noteq>
          Some (Inl OutOfBounds)"
    by blast
  moreover
  from uv_color_builder_bounds [of missing_colors_geometry identity_ops kEhCloseEnough_f32 unit_square "()" "()"] b
  have "GetPositionUVColorBuffer identity_ops kEhCloseEnough_f32 unit_square () () missing_colors_geometry =
          Some (Inl OutOfBounds)"
    by blast
  ultimately show ?thesis using a b by blast
qed

section \<open>Claims about the clamped texture coordinates\<close>

lemma scalar_less_NaN: "\<not> scalar_less a NaN"
  by (cases a) simp_all

lemma std_clamp_NaN: "std_clamp NaN lo hi = NaN"
  by (simp add: std_clamp_def scalar_less_NaN)

lemma std_clamp_range:
  assumes "scalar_le (Fin 0) upper" and "scalar_less upper (Fin 1)" and "v \<noteq> NaN"
  shows "in_unit_range upper (std_clamp v (Fin 0) upper)"
  using assms
  by (cases v; cases upper) (auto simp: in_unit_range_def std_clamp_def scalar_le_def)

lemma upper_bound_range:
  assumes "1 / 16777216 \<le> e" and "e \<le> 1 / 2"
  shows "scalar_le (Fin 0) (float_minus (Fin 1) (Fin e)) \<and>
         scalar_less (float_minus (Fin 1) (Fin e)) (Fin 1)"
proof -
  from one_minus_eps_f32 [OF assms] obtain h
    where "float_minus (Fin 1) (Fin e) = Fin h" and "1 / 2 \<le> h" and "h \<le> 16777215 / 16777216"
    by blast
  then show ?thesis by (simp add: scalar_le_def)
qed

text \<open>The texture coordinate packed for vertex \<open>i\<close> in a returned result.\<close>

lemma packed_texture_coords:
  assumes "GetPositionUVColorBuffer ops eps texture_coverage effect_transform st g = Some (Inr r)"
    and "i < length (vertices' g)"
  shows "i < length (vertex_buffer_view (vertex_buffer r))"
    and "blend_texture_coords (vertex_buffer_view (vertex_buffer r) ! i) =
         \<lparr>px = std_clamp (px (uv_of ops texture_coverage effect_transform g i))
                          (Fin 0) (float_minus (Fin 1) eps),
          py = std_clamp (py (uv_of ops texture_coverage effect_transform g i))
                          (Fin 0) (float_minus (Fin 1) eps)\<rparr>"
proof -
  let ?view = "vertex_buffer_view (vertex_buffer r)"
  have view: "?view =
      map (blend_vertex ops eps
             (matrix_times ops (GetNormalizingTransform ops texture_coverage) effect_transform) g)
          [0 ..< length (vertices' g)]"
    using assms(1) by (rule GetPositionUVColorBuffer_view)
  then show "i < length ?view" using assms(2) by simp
  show "blend_texture_coords (?view ! i) =
          \<lparr>px = std_clamp (px (uv_of ops texture_coverage effect_transform g i))
                           (Fin 0) (float_minus (Fin 1) eps),
           py = std_clamp (py (uv_of ops texture_coverage effect_transform g i))
                           (Fin 0) (float_minus (Fin 1) eps)\<rparr>"
    using assms(2)
    by (simp add: view blend_vertex_def clamped_uv_def uv_of_def uv_source_def)
qed

text \<open>
  Claim C5, as amended. \<open>GetPositionUVColorBuffer\<close> returns a result exactly for the
  geometries of fewer than \<open>2 ^ 32\<close> vertices with at least as many colours, and texture
  coordinates when there are any, as vertices. In every result the texture coordinate
  packed for vertex \<open>i\<close> is the image under
  \<open>uv_transform = normalizing_transform(texture_coverage) * effect_transform\<close> of
  \<open>texture_coordinates[i]\<close> when texture coordinates are present and of \<open>vertices[i]\<close>
  otherwise, each component passed through \<open>std::clamp\<close> with the bounds 0 and the float
  difference \<open>1.0f - \<epsilon>\<close>. When that difference lies from 0 up to, but not at, 1, as it
  does for every \<open>\<epsilon>\<close> from \<open>2 ^ -24\<close> to a half, a component that is not NaN ends between
  0 and the difference and strictly below 1; a NaN component stays NaN.
\<close>

theorem uv_clamped:
  "(\<forall>r i. GetPositionUVColorBuffer ops eps texture_coverage effect_transform st g = Some (Inr r) \<and>
          i < length (vertices' g) \<longrightarrow>
      i < length (vertex_buffer_view (vertex_buffer r))
      \<and> blend_texture_coords (vertex_buffer_view (vertex_buffer r) ! i) =
          \<lparr>px = std_clamp (px (uv_of ops texture_coverage effect_transform g i))
                           (Fin 0) (float_minus (Fin 1) eps),
           py = std_clamp (py (uv_of ops texture_coverage effect_transform g i))
                           (Fin 0) (float_minus (Fin 1) eps)\<rparr>
      \<and> (scalar_le (Fin 0) (float_minus (Fin 1) eps) \<and>
          scalar_less (float_minus (Fin 1) eps) (Fin 1) \<and>
          px (uv_of ops texture_coverage effect_transform g i) \<noteq> NaN \<longrightarrow>
           in_unit_range (float_minus (Fin 1) eps)
             (px (blend_texture_coords (vertex_buffer_view (vertex_buffer r) ! i))))
      \<and> (scalar_le (Fin 0) (float_minus (Fin 1) eps) \<and>
          scalar_less (float_minus (Fin 1) eps) (Fin 1) \<and>
          py (uv_of ops texture_coverage effect_transform g i) \<noteq> NaN \<longrightarrow>
           in_unit_range (float_minus (Fin 1) eps)
             (py (blend_texture_coords (vertex_buffer_view (vertex_buffer r) ! i))))
      \<and> (px (uv_of ops texture_coverage effect_transform g i) = NaN \<longrightarrow>
           px (blend_texture_coords (vertex_buffer_view (vertex_buffer r) ! i)) = NaN)
      \<and> (py (uv_of ops texture_coverage effect_transform g i) = NaN \<longrightarrow>
           py (blend_texture_coords (vertex_buffer_view (vertex_buffer r) ! i)) = NaN))
   \<and> (\<forall>e. eps = Fin e \<and> 1 / 16777216 \<le> e \<and> e \<le> 1 / 2 \<longrightarrow>
          scalar_le (Fin 0) (float_minus (Fin 1) eps) \<and>
          scalar_less (float_minus (Fin 1) eps) (Fin 1))
   \<and> ((\<exists>r. GetPositionUVColorBuffer ops eps texture_coverage effect_transform st g =
             Some (Inr r)) \<longleftrightarrow>
        length (vertices' g) < 2 ^ 32 \<and> length (vertices' g) \<le> length (colors' g) \<and>
        (texture_coordinates' g \<noteq> [] \<longrightarrow>
           length (vertices' g) \<le> length (texture_coordinates' g)))"
proof (intro conjI allI impI)
  fix r i
  assume "GetPositionUVColorBuffer ops eps texture_coverage effect_transform st g = Some (Inr r) \<and>
          i < length (vertices' g)"
  then have ret: "GetPositionUVColorBuffer ops eps texture_coverage effect_transform st g = Some (Inr r)"
    and i: "i < length (vertices' g)"
    by simp_all
  note at = packed_texture_coords [OF ret i]
  show "i < length (vertex_buffer_view (vertex_buffer r))" by (rule at(1))
  show "blend_texture_coords (vertex_buffer_view (vertex_buffer r) ! i) =
      \<lparr>px = std_clamp (px (uv_of ops texture_coverage effect_transform g i))
                       (Fin 0) (float_minus (Fin 1) eps),
       py = std_clamp (py (uv_of ops texture_coverage effect_transform g i))
                       (Fin 0) (float_minus (Fin 1) eps)\<rparr>"
    by (rule at(2))
  show "in_unit_range (float_minus (Fin 1) eps)
          (px (blend_texture_coords (vertex_buffer_view (vertex_buffer r) ! i)))"
    if "scalar_le (Fin 0) (float_minus (Fin 1) eps) \<and>
        scalar_less (float_minus (Fin 1) eps) (Fin 1) \<and>
        px (uv_of ops texture_coverage effect_transform g i) \<noteq> NaN"
    using that by (simp add: at(2) std_clamp_range)
  show "in_unit_range (float_minus (Fin 1) eps)
          (py (blend_texture_coords (vertex_buffer_view (vertex_buffer r) ! i)))"
    if "scalar_le (Fin 0) (float_minus (Fin 1) eps) \<and>
        scalar_less (float_minus (Fin 1) eps) (Fin 1) \<and>
        py (uv_of ops texture_coverage effect_transform g i) \<noteq> NaN"
    using that by (simp add: at(2) std_clamp_range)
  show "px (blend_texture_coords (vertex_buffer_view (vertex_buffer r) ! i)) = NaN"
    if "px (uv_of ops texture_coverage effect_transform g i) = NaN"
    using that by (simp add: at(2) std_clamp_NaN)
  show "py (blend_texture_coords (vertex_buffer_view (vertex_buffer r) ! i)) = NaN"
    if "py (uv_of ops texture_coverage effect_transform g i) = NaN"
    using that by (simp add: at(2) std_clamp_NaN)
next
  fix e
  assume "eps = Fin e \<and> 1 / 16777216 \<le> e \<and> e \<le> 1 / 2"
  then have eps: "eps = Fin e" and "1 / 16777216 \<le> e" and "e \<le> 1 / 2" by simp_all
  from upper_bound_range [OF this(2,3)]
  show "scalar_le (Fin 0) (float_minus (Fin 1) eps)"
    and "scalar_less (float_minus (Fin 1) eps) (Fin 1)"
    by (simp_all add: eps)
next
  show "(\<exists>r. GetPositionUVColorBuffer ops eps texture_coverage effect_transform st g =
              Some (Inr r)) \<longleftrightarrow>
        length (vertices' g) < 2 ^ 32 \<and> length (vertices' g) \<le> length (colors' g) \<and>
        (texture_coordinates' g \<noteq> [] \<longrightarrow>
           length (vertices' g) \<le> length (texture_coordinates' g))"
    using GetPositionUVColorBuffer_Inr(2-4) [of ops eps texture_coverage effect_transform st g]
      GetPositionUVColorBuffer_returns [of g ops eps texture_coverage effect_transform st]
    by blast
qed

text \<open>
  With \<open>\<epsilon>\<close> the binary32 number nearest to one thousandth, the second vertex of the
  sample triangle, at \<open>(2, 0)\<close>, gets the texture coordinate \<open>(16760439 / 2 ^ 24, 0)\<close>.
\<close>

theorem uv_clamped_witness:
  "GetPositionUVColorBuffer identity_ops kEhCloseEnough_f32 unit_square () () sample_triangle \<noteq>
     None \<and>
   map_option (map_sum id (\<lambda>r. blend_texture_coords (vertex_buffer_view (vertex_buffer r) ! 1)))
     (GetPositionUVColorBuffer identity_ops kEhCloseEnough_f32 unit_square () () sample_triangle) =
     Some (Inr \<lparr>px = Fin (16760439 / 16777216), py = Fin 0\<rparr>) \<and>
   in_unit_range (float_minus (Fin 1) kEhCloseEnough_f32) (Fin (16760439 / 16777216)) \<and>
   in_unit_range (float_minus (Fin 1) kEhCloseEnough_f32) (Fin 0)"
proof -
  have uv: "uv_of identity_ops unit_square () sample_triangle 1 = \<lparr>px = Fin 2, py = Fin 0\<rparr>"
    by (simp add: uv_of_def uv_source_def identity_ops_def sample_triangle_def)
  have i: "1 < length (vertices' sample_triangle)"
    by (simp add: sample_triangle_def)
  note at = uv_clamped [of identity_ops kEhCloseEnough_f32 unit_square "()" "()" sample_triangle,
      THEN conjunct1, rule_format, OF conjI [OF sample_triangle_uv_buffer i]]
  from at show ?thesis
    by (simp add: sample_triangle_uv_buffer uv std_clamp_def one_minus_kEhCloseEnough_f32
                  scalar_le_def)
qed

text \<open>
  Claim C5 as stated fails in two ways. A texture coordinate that is NaN is packed as
  NaN, since both comparisons of \<open>std::clamp\<close> are false on NaN, and NaN is not below 1.
  And the upper bound is the float difference: with \<open>\<epsilon>\<close> the binary32 number nearest to
  one thousandth, a vertex at \<open>(2, 0)\<close> is packed with \<open>16760439 / 2 ^ 24\<close>, which is above
  \<open>1 - \<epsilon>\<close>.
\<close>

theorem uv_clamped_counterexample:
  "GetPositionUVColorBuffer identity_ops kEhCloseEnough_f32 unit_square () () nan_point_geometry =
     Some (Inr \<lparr>primitive_type = PrimitiveType_kTriangle,
                vertex_buffer =
                  \<lparr>vertex_buffer_view =
                     [\<lparr>blend_vertices = \<lparr>px = Fin 0, py = Fin 0\<rparr>,
                        blend_texture_coords = \<lparr>px = NaN, py = NaN\<rparr>, blend_color = ()\<rparr>],
                   index_buffer = None, vertex_count = 1,
                   index_type = IndexType_kNone\<rparr>,
                transform = ()\<rparr>) \<and>
   \<not> scalar_less NaN (Fin 1) \<and>
   GetPositionUVColorBuffer identity_ops kEhCloseEnough_f32 unit_square () () far_point_geometry =
     Some (Inr \<lparr>primitive_type = PrimitiveType_kTriangle,
                vertex_buffer =
                  \<lparr>vertex_buffer_view =
                     [\<lparr>blend_vertices = \<lparr>px = Fin 2, py = Fin 0\<rparr>,
                        blend_texture_coords = \<lparr>px = Fin (16760439 / 16777216), py = Fin 0\<rparr>,
                        blend_color = ()\<rparr>],
                   index_buffer = None, vertex_count = 1,
                   index_type = IndexType_kNone\<rparr>,
                transform = ()\<rparr>) \<and>
   \<not> scalar_le (Fin (16760439 / 16777216)) (Fin (1 - 8589935 / 8589934592))"
proof (intro conjI)
  show "GetPositionUVColorBuffer identity_ops kEhCloseEnough_f32 unit_square () () nan_point_geometry =
     Some (Inr \<lparr>primitive_type = PrimitiveType_kTriangle,
                vertex_buffer =
                  \<lparr>vertex_buffer_view =
                     [\<lparr>blend_vertices = \<lparr>px = Fin 0, py = Fin 0\<rparr>,
                        blend_texture_coords = \<lparr>px = NaN, py = NaN\<rparr>, blend_color = ()\<rparr>],
                   index_buffer = None, vertex_count = 1,
                   index_type = IndexType_kNone\<rparr>,
                transform = ()\<rparr>)"
    by (simp add: GetPositionUVColorBuffer_def nan_point_geometry_def fill_position_uv_color.simps
                  GetPrimitiveType_def HasTextureCoordinates_def identity_ops_def clamped_uv_def
                  std_clamp_NaN)
  show "\<not> scalar_less NaN (Fin 1)" by simp
  show "GetPositionUVColorBuffer identity_ops kEhCloseEnough_f32 unit_square () () far_point_geometry =
     Some (Inr \<lparr>primitive_type = PrimitiveType_kTriangle,
                vertex_buffer =
                  \<lparr>vertex_buffer_view =
                     [\<lparr>blend_vertices = \<lparr>px = Fin 2, py = Fin 0\<rparr>,
                        blend_texture_coords = \<lparr>px = Fin (16760439 / 16777216), py = Fin 0\<rparr>,
                        blend_color = ()\<rparr>],
                   index_buffer = None, vertex_count = 1,
                   index_type = IndexType_kNone\<rparr>,
                transform = ()\<rparr>)"
    by (simp add: GetPositionUVColorBuffer_def far_point_geometry_def fill_position_uv_color.simps
                  GetPrimitiveType_def HasTextureCoordinates_def identity_ops_def clamped_uv_def
                  std_clamp_def one_minus_kEhCloseEnough_f32)
  show "\<not> scalar_le (Fin (16760439 / 16777216)) (Fin (1 - 8589935 / 8589934592))"
    by (simp add: scalar_le_def)
qed

end
